theory Spec2Isabelle
  imports Complex_Main
begin

section \<open>Values, exceptions and the Python operations the two programs use\<close>

text \<open>
  The repository holds two variants of one pipeline: \<^verbatim>\<open>main.py\<close> (a FastAPI service
  with a background thread) and \<^verbatim>\<open>ml_model.py\<close> (a bounded training loop). Both read
  a JSON payload from the data lake, so the payload is modelled as a JSON value and
  every Python operation applied to it is a function that either returns or raises.
  A \<open>JNum\<close> is a finite decoded number, by its exact value. What Python computes
  from such numbers (the statistics of a batch, the drift test) is not computed here:
  Python's arithmetic is a parameter of the model, so nothing is said about how it
  rounds. Accuracies are read by their exact value. The waits between
  polls (\<^verbatim>\<open>time.sleep\<close>) change no state and are left out; \<^verbatim>\<open>start_http_server\<close> and
  \<^verbatim>\<open>joblib.dump\<close> are taken to succeed; each loop is followed on its own thread, over
  a finite run of polls.
\<close>

datatype json =
    JNull
  | JBool bool
  | JNum real
  | JStr string
  | JArr "json list"
  | JObj "(string \<times> json) list"

text \<open>A \<open>JObj\<close> is a decoded dict: its keys are taken to be pairwise distinct.\<close>

datatype exn =
    KeyError
  | TypeError
  | IndexError
  | ValueError
  | AttributeError
  | StatisticsError
  | JSONDecodeError
  | RequestException string
  | LibraryError string

text \<open>Truth value of an object, as \<^verbatim>\<open>if records:\<close> and \<^verbatim>\<open>if not records:\<close> test it.\<close>

fun truthy :: "json \<Rightarrow> bool" where
  "truthy JNull = False"
| "truthy (JBool b) = b"
| "truthy (JNum x) = (x \<noteq> 0)"
| "truthy (JStr s) = (s \<noteq> [])"
| "truthy (JArr xs) = (xs \<noteq> [])"
| "truthy (JObj kv) = (kv \<noteq> [])"

text \<open>\<^verbatim>\<open>len(obj)\<close>\<close>

fun py_len :: "json \<Rightarrow> exn + nat" where
  "py_len (JStr s) = Inr (length s)"
| "py_len (JArr xs) = Inr (length xs)"
| "py_len (JObj kv) = Inr (length kv)"
| "py_len _ = Inl TypeError"

text \<open>\<^verbatim>\<open>for r in obj\<close>: the elements of a list, the characters of a string, the keys of a dict.\<close>

fun py_iter :: "json \<Rightarrow> exn + json list" where
  "py_iter (JArr xs) = Inr xs"
| "py_iter (JStr s) = Inr (map (\<lambda>c. JStr [c]) s)"
| "py_iter (JObj kv) = Inr (map (\<lambda>p. JStr (fst p)) kv)"
| "py_iter _ = Inl TypeError"

text \<open>\<^verbatim>\<open>obj['key']\<close> with a string key.\<close>

fun getitem_key :: "json \<Rightarrow> string \<Rightarrow> exn + json" where
  "getitem_key (JObj kv) k = (case map_of kv k of None \<Rightarrow> Inl KeyError | Some v \<Rightarrow> Inr v)"
| "getitem_key _ k = Inl TypeError"

text \<open>\<^verbatim>\<open>obj[i]\<close> with a non-negative integer; a decoded dict has string keys only.\<close>

fun getitem_idx :: "json \<Rightarrow> nat \<Rightarrow> exn + json" where
  "getitem_idx (JArr xs) i = (if i < length xs then Inr (xs ! i) else Inl IndexError)"
| "getitem_idx (JStr s) i = (if i < length s then Inr (JStr [s ! i]) else Inl IndexError)"
| "getitem_idx (JObj kv) i = Inl KeyError"
| "getitem_idx _ i = Inl TypeError"

text \<open>\<^verbatim>\<open>obj.get('key', default)\<close>: only a dict has the method.\<close>

fun dict_get :: "json \<Rightarrow> string \<Rightarrow> json \<Rightarrow> exn + json" where
  "dict_get (JObj kv) k d = (case map_of kv k of None \<Rightarrow> Inr d | Some v \<Rightarrow> Inr v)"
| "dict_get _ k d = Inl AttributeError"

fun is_list :: "json \<Rightarrow> bool" where
  "is_list (JArr xs) = True"
| "is_list _ = False"

text \<open>A list comprehension whose body may raise: left to right, the first exception wins.\<close>

fun map_raise :: "('a \<Rightarrow> exn + 'b) \<Rightarrow> 'a list \<Rightarrow> exn + 'b list" where
  "map_raise f [] = Inr []"
| "map_raise f (x # xs) =
     (case f x of
        Inl e \<Rightarrow> Inl e
      | Inr v \<Rightarrow> (case map_raise f xs of Inl e \<Rightarrow> Inl e | Inr vs \<Rightarrow> Inr (v # vs)))"

text \<open>
  \<^verbatim>\<open>set(obj)\<close>: the elements must be hashable (a list or a dict is not), and
  \<^verbatim>\<open>True == 1\<close>, \<^verbatim>\<open>False == 0\<close> as set elements.
\<close>

fun hash_key :: "json \<Rightarrow> exn + json" where
  "hash_key (JArr xs) = Inl TypeError"
| "hash_key (JObj kv) = Inl TypeError"
| "hash_key (JBool b) = Inr (JNum (if b then 1 else 0))"
| "hash_key v = Inr v"

definition py_set :: "json \<Rightarrow> exn + json set" where
  "py_set obj =
     (case py_iter obj of
        Inl e \<Rightarrow> Inl e
      | Inr xs \<Rightarrow> (case map_raise hash_key xs of Inl e \<Rightarrow> Inl e | Inr ks \<Rightarrow> Inr (set ks)))"

text \<open>\<^verbatim>\<open>s.split(",")\<close>: always at least one piece.\<close>

fun split_on :: "char \<Rightarrow> string \<Rightarrow> string list" where
  "split_on c [] = [[]]"
| "split_on c (x # xs) =
     (if x = c then [] # split_on c xs
      else case split_on c xs of [] \<Rightarrow> [[x]] | w # ws \<Rightarrow> (x # w) # ws)"

text \<open>\<^verbatim>\<open>str(n)\<close> of a non-negative integer.\<close>

function str_nat :: "nat \<Rightarrow> string" where
  "str_nat n =
     (if n < 10 then [''0123456789'' ! n]
      else str_nat (n div 10) @ [''0123456789'' ! (n mod 10)])"
  by pat_completeness auto
termination
  by (relation "measure id") auto

declare str_nat.simps [simp del]

section \<open>The libraries, taken as parameters\<close>

text \<open>
  scikit-learn, numpy, the \<^verbatim>\<open>statistics\<close> module, Python's arithmetic and built-in
  conversions, and the webhook are not code of this repository. They are parameters of
  the model: \<open>'m\<close> is the classifier object, a fit returns the object as the call left
  it together with the exception it raised, if any; \<open>'f\<close> is the type of the numbers
  Python computes with (integers and floats, the non-finite ones included), with the
  subtraction, the product, \<^verbatim>\<open>abs\<close> and \<^verbatim>\<open>>\<close> on them and the values of the literals
  \<^verbatim>\<open>0.0\<close>, \<^verbatim>\<open>0.1\<close> and \<^verbatim>\<open>0.2\<close>.
\<close>

datatype post_result =
    PostStatus nat string
  | PostTimeout
  | PostError exn

text \<open>
  What \<^verbatim>\<open>requests.post\<close> to the webhook does: a response with its status code and
  text, a \<^verbatim>\<open>Timeout\<close>, or another exception.
\<close>

record ('m, 'f) library =
  train_test_split ::
    "json list \<Rightarrow> json list \<Rightarrow> real \<Rightarrow> nat option \<Rightarrow>
       exn + (json list \<times> json list \<times> json list \<times> json list)"
  sk_fit :: "'m \<Rightarrow> json list \<Rightarrow> json list \<Rightarrow> 'm \<times> exn option"
  sk_predict :: "'m \<Rightarrow> json list \<Rightarrow> exn + json list"
  accuracy_score :: "json list \<Rightarrow> json list \<Rightarrow> exn + real"
  np_array :: "json list \<Rightarrow> exn + json list"
  py_float :: "string \<Rightarrow> exn + real"
  py_int :: "json \<Rightarrow> exn + int"
  str_exn :: "exn \<Rightarrow> string"
  format_2f :: "real \<Rightarrow> string"
  str_set :: "json set \<Rightarrow> string"
  slack_post :: "string \<Rightarrow> post_result"
  statistics_mean :: "json list \<Rightarrow> exn + 'f"
  statistics_stdev :: "json list \<Rightarrow> exn + 'f"
  lit_0_0 :: 'f
  lit_0_1 :: 'f
  lit_0_2 :: 'f
  num_sub :: "'f \<Rightarrow> 'f \<Rightarrow> exn + 'f"
  num_mul :: "'f \<Rightarrow> 'f \<Rightarrow> exn + 'f"
  num_abs :: "'f \<Rightarrow> 'f"
  num_gt :: "'f \<Rightarrow> 'f \<Rightarrow> bool"

section \<open>What one poll of the data lake returns\<close>

datatype reply =
    ConnFail exn
  | Response nat "json option"

text \<open>
  \<open>ConnFail e\<close>: \<^verbatim>\<open>requests.get\<close> raised \<open>e\<close>. \<open>Response st body\<close>: a response with
  status \<open>st\<close>; \<open>body\<close> is what \<^verbatim>\<open>.json()\<close> decodes, \<open>None\<close> when it raises.
\<close>

record cycle_input =
  delay :: real
  reply :: reply

section \<open>Process state shared by both variants: model, metrics, alerts, output\<close>

record 'm process =
  model :: 'm
  fit_log :: "(json list \<times> json list) list"
  model_accuracy :: real
  records_processed_total :: nat
  retrain_count_total :: nat
  distribution_drift_detected :: nat
  feature_added :: nat
  feature_removed :: nat
  datalake_unavailable :: nat
  response_delay_seconds :: real
  alerts :: "string list"
  printed :: "string list"

text \<open>
  \<open>fit_log\<close> is a trace of the calls to \<^verbatim>\<open>model.fit\<close> (the data of each call, in
  order); \<open>alerts\<close> the messages handed to the alert function; \<open>printed\<close> the lines
  written by \<^verbatim>\<open>print\<close>.
\<close>

definition RETRAIN_THRESHOLD :: real where
  "RETRAIN_THRESHOLD = 0.8"

text \<open>
  An accuracy is a double, read here by its exact value. \<^verbatim>\<open>acc < RETRAIN_THRESHOLD\<close>
  compares it with the double next to 0.8, which lies just above 0.8 with no double in
  between, so the comparison with 0.8 itself decides the same way.
\<close>

text \<open>One call of \<^verbatim>\<open>model.fit(X, y)\<close>: the object is replaced, the call is traced.\<close>

definition model_fit ::
  "('m, 'f) library \<Rightarrow> json list \<Rightarrow> json list \<Rightarrow> ('m, 'z) process_scheme \<Rightarrow>
     ('m, 'z) process_scheme \<times> exn option" where
  "model_fit lib X y s =
     (let r = sk_fit lib (model s) X y
      in (s\<lparr>model := fst r, fit_log := fit_log s @ [(X, y)]\<rparr>, snd r))"

section \<open>\<^verbatim>\<open>main.py\<close>: the service variant\<close>

record 'm main_state = "'m process" +
  X_history :: "json list"
  y_history :: "json list"
  previous_features_count :: nat

definition SLACK_WEBHOOK :: string where
  "SLACK_WEBHOOK = ''YOUR_SLACK_WEBHOOK_URL_HERE''"

text \<open>\<^verbatim>\<open>sub in s\<close> on strings.\<close>

fun starts_with :: "string \<Rightarrow> string \<Rightarrow> bool" where
  "starts_with [] s = True"
| "starts_with (c # cs) [] = False"
| "starts_with (c # cs) (x # xs) = (c = x \<and> starts_with cs xs)"

fun str_contains :: "string \<Rightarrow> string \<Rightarrow> bool" where
  "str_contains sub [] = starts_with sub []"
| "str_contains sub (x # xs) = (starts_with sub (x # xs) \<or> str_contains sub xs)"

text \<open>
  The lines \<^verbatim>\<open>send_slack_alert(message)\<close> prints, lines 39-60: the debug line when
  the webhook is not configured, else what the post to the webhook leads to.
\<close>

definition slack_lines :: "('m, 'f) library \<Rightarrow> string \<Rightarrow> string list" where
  "slack_lines lib message =
     (if SLACK_WEBHOOK = [] \<or> str_contains ''XXXX'' SLACK_WEBHOOK then
        [''DEBUG ALERT: '' @ message]
      else case slack_post lib message of
             PostStatus code body \<Rightarrow>
               (if code \<noteq> 200 then [''Slack Error '' @ str_nat code @ '': '' @ body] else [])
           | PostTimeout \<Rightarrow> [''Slack alert failed: Request timed out.'']
           | PostError e \<Rightarrow> [''Slack alert failed: '' @ str_exn lib e])"

text \<open>
  \<^verbatim>\<open>send_slack_alert(message)\<close>: the message is handed over and the outcome printed;
  every exception of the delivery is caught inside the function, which never raises.
\<close>

definition send_slack_alert ::
  "('m, 'f) library \<Rightarrow> string \<Rightarrow> ('m, 'z) process_scheme \<Rightarrow> ('m, 'z) process_scheme" where
  "send_slack_alert lib message s =
     s\<lparr>alerts := alerts s @ [message], printed := printed s @ slack_lines lib message\<rparr>"

text \<open>Lines 83-85: \<^verbatim>\<open>for r in records: X_history.append(r['features']); y_history.append(r['label'])\<close>\<close>

fun append_history :: "json list \<Rightarrow> 'm main_state \<Rightarrow> 'm main_state \<times> exn option" where
  "append_history [] s = (s, None)"
| "append_history (r # rs) s =
     (case getitem_key r ''features'' of
        Inl e \<Rightarrow> (s, Some e)
      | Inr f \<Rightarrow>
          (let s1 = s\<lparr>X_history := X_history s @ [f]\<rparr>
           in case getitem_key r ''label'' of
                Inl e \<Rightarrow> (s1, Some e)
              | Inr l \<Rightarrow> append_history rs (s1\<lparr>y_history := y_history s1 @ [l]\<rparr>)))"

text \<open>Line 88: \<^verbatim>\<open>len(records[0]['features'])\<close>\<close>

definition current_feat_count :: "json \<Rightarrow> exn + nat" where
  "current_feat_count records =
     (case getitem_idx records 0 of
        Inl e \<Rightarrow> Inl e
      | Inr r0 \<Rightarrow> (case getitem_key r0 ''features'' of Inl e \<Rightarrow> Inl e | Inr f \<Rightarrow> py_len f))"

text \<open>Lines 89-96: the count-based feature change check.\<close>

definition feature_change_main ::
  "('m, 'f) library \<Rightarrow> nat \<Rightarrow> 'm main_state \<Rightarrow> 'm main_state" where
  "feature_change_main lib cur s =
     (let s1 =
        (if previous_features_count s \<noteq> 0 then
           (if cur > previous_features_count s then
              send_slack_alert lib ''Feature Added detected'' (s\<lparr>feature_added := 1\<rparr>)
            else if cur < previous_features_count s then
              send_slack_alert lib ''Feature Removed detected'' (s\<lparr>feature_removed := 1\<rparr>)
            else s)
         else s)
      in s1\<lparr>previous_features_count := cur\<rparr>)"

text \<open>Lines 99-109: evaluate on a held-out split, refit on everything below the threshold.\<close>

definition retrain_main :: "('m, 'f) library \<Rightarrow> 'm main_state \<Rightarrow> 'm main_state \<times> exn option" where
  "retrain_main lib s =
     (if length (X_history s) > 20 then
        (case train_test_split lib (X_history s) (y_history s) 0.2 None of
           Inl e \<Rightarrow> (s, Some e)
         | Inr (X_train, X_test, y_train, y_test) \<Rightarrow>
             (case model_fit lib X_train y_train s of
                (s1, Some e) \<Rightarrow> (s1, Some e)
              | (s1, None) \<Rightarrow>
                  (case sk_predict lib (model s1) X_test of
                     Inl e \<Rightarrow> (s1, Some e)
                   | Inr preds \<Rightarrow>
                       (case accuracy_score lib y_test preds of
                          Inl e \<Rightarrow> (s1, Some e)
                        | Inr acc \<Rightarrow>
                            (let s2 = s1\<lparr>model_accuracy := acc\<rparr>
                             in if acc < RETRAIN_THRESHOLD then
                                  model_fit lib (X_history s2) (y_history s2)
                                    (send_slack_alert lib
                                       (''Accuracy '' @ format_2f lib acc @
                                        '' < 0.8. Retraining triggered.'')
                                       (s2\<lparr>retrain_count_total := retrain_count_total s2 + 1\<rparr>))
                                else (s2, None))))))
      else (s, None))"

text \<open>Lines 77-109, once a response that is not a 503 has arrived.\<close>

definition process_main ::
  "('m, 'f) library \<Rightarrow> json option \<Rightarrow> 'm main_state \<Rightarrow> 'm main_state \<times> exn option" where
  "process_main lib body s =
     (case body of
        None \<Rightarrow> (s, Some JSONDecodeError)
      | Some records \<Rightarrow>
          (if \<not> truthy records then (s, None)
           else case py_len records of
                  Inl e \<Rightarrow> (s, Some e)
                | Inr n \<Rightarrow>
                    (let s1 = s\<lparr>records_processed_total := records_processed_total s + n\<rparr>
                     in case py_iter records of
                          Inl e \<Rightarrow> (s1, Some e)
                        | Inr rs \<Rightarrow>
                            (case append_history rs s1 of
                               (s2, Some e) \<Rightarrow> (s2, Some e)
                             | (s2, None) \<Rightarrow>
                                 (case current_feat_count records of
                                    Inl e \<Rightarrow> (s2, Some e)
                                  | Inr cur \<Rightarrow> retrain_main lib (feature_change_main lib cur s2))))))"

text \<open>The body of the \<^verbatim>\<open>try\<close> block, lines 67-109: the state it leaves and what it raised.\<close>

definition try_body_main ::
  "('m, 'f) library \<Rightarrow> cycle_input \<Rightarrow> 'm main_state \<Rightarrow> 'm main_state \<times> exn option" where
  "try_body_main lib inp s =
     (case reply inp of
        ConnFail e \<Rightarrow> (s, Some e)
      | Response status body \<Rightarrow>
          (let s1 = s\<lparr>response_delay_seconds := delay inp\<rparr>
           in if status = 503 then
                (send_slack_alert lib ''Data Lake 503 - Service Unavailable''
                   (s1\<lparr>datalake_unavailable := datalake_unavailable s1 + 1\<rparr>), None)
              else process_main lib body s1))"

text \<open>One iteration of \<^verbatim>\<open>while True\<close>: \<^verbatim>\<open>except Exception as e: print(f"Loop Error: {e}")\<close>.\<close>

definition cycle_main :: "('m, 'f) library \<Rightarrow> cycle_input \<Rightarrow> 'm main_state \<Rightarrow> 'm main_state" where
  "cycle_main lib inp s =
     (case try_body_main lib inp s of
        (s', None) \<Rightarrow> s'
      | (s', Some e) \<Rightarrow> s'\<lparr>printed := printed s' @ [''Loop Error: '' @ str_exn lib e]\<rparr>)"

text \<open>
  How a loop stands after a finite run of polls: still in the loop, left by its
  own condition, or ended by an exception nothing caught.
\<close>

datatype 's loop_outcome =
    Running 's
  | Halted 's
  | Crashed exn 's

text \<open>\<^verbatim>\<open>ingestion_and_retrain_loop\<close> over the polls \<open>inps\<close>.\<close>

fun ingestion_and_retrain_loop ::
  "('m, 'f) library \<Rightarrow> cycle_input list \<Rightarrow> 'm main_state \<Rightarrow> 'm main_state loop_outcome" where
  "ingestion_and_retrain_loop lib [] s = Running s"
| "ingestion_and_retrain_loop lib (inp # inps) s =
     ingestion_and_retrain_loop lib inps (cycle_main lib inp s)"

text \<open>The \<^verbatim>\<open>/predict\<close> endpoint, lines 125-132.\<close>

datatype payload =
    Prediction int
  | ErrorPayload string

datatype 'a call_result =
    Returned 'a
  | Propagated exn

definition predict_try :: "('m, 'f) library \<Rightarrow> 'm \<Rightarrow> string \<Rightarrow> exn + int" where
  "predict_try lib m features =
     (case map_raise (py_float lib) (split_on CHR '','' features) of
        Inl e \<Rightarrow> Inl e
      | Inr feat_list \<Rightarrow>
          (case sk_predict lib m [JArr (map JNum feat_list)] of
             Inl e \<Rightarrow> Inl e
           | Inr preds \<Rightarrow>
               (case getitem_idx (JArr preds) 0 of
                  Inl e \<Rightarrow> Inl e
                | Inr prediction \<Rightarrow> py_int lib prediction)))"

definition predict :: "('m, 'f) library \<Rightarrow> 'm \<Rightarrow> string \<Rightarrow> payload call_result" where
  "predict lib m features =
     (case predict_try lib m features of
        Inr n \<Rightarrow> Returned (Prediction n)
      | Inl e \<Rightarrow> Returned (ErrorPayload (str_exn lib e)))"

section \<open>\<^verbatim>\<open>ml_model.py\<close>: the bounded training variant\<close>

definition MIN_SAMPLES_TO_TRAIN :: nat where
  "MIN_SAMPLES_TO_TRAIN = 4"

definition TRAIN_CYCLES :: nat where
  "TRAIN_CYCLES = 50"

definition SAVE_INTERVAL :: nat where
  "SAVE_INTERVAL = 5"

text \<open>
  The globals \<^verbatim>\<open>X\<close> and \<^verbatim>\<open>y\<close> are the fields \<open>ml_X\<close> and \<open>ml_y\<close>; \<open>saved\<close> is
  what \<^verbatim>\<open>joblib.dump\<close> has written, file name and object.
\<close>

record ('m, 'f) ml_state = "'m process" +
  ml_X :: "json list"
  ml_y :: "json list"
  retrain_count :: nat
  current_cycle :: nat
  previous_features :: "json set"
  feature_stats :: "nat \<rightharpoonup> 'f \<times> 'f"
  saved :: "(string \<times> 'm) list"

text \<open>\<^verbatim>\<open>send_alert(msg)\<close>: \<^verbatim>\<open>print(f"ALERT: {msg}")\<close>\<close>

definition send_alert :: "string \<Rightarrow> ('m, 'z) process_scheme \<Rightarrow> ('m, 'z) process_scheme" where
  "send_alert msg s = s\<lparr>alerts := alerts s @ [msg], printed := printed s @ [''ALERT: '' @ msg]\<rparr>"

definition py_print :: "string \<Rightarrow> ('m, 'z) process_scheme \<Rightarrow> ('m, 'z) process_scheme" where
  "py_print line s = s\<lparr>printed := printed s @ [line]\<rparr>"

text \<open>The \<^verbatim>\<open>try\<close> block of \<^verbatim>\<open>fetch_records\<close>, lines 49-67: what it returns or raises.\<close>

definition fetch_try ::
  "cycle_input \<Rightarrow> ('m, 'f) ml_state \<Rightarrow> ('m, 'f) ml_state \<times> (exn + json option)" where
  "fetch_try inp s =
     (case reply inp of
        ConnFail e \<Rightarrow> (s, Inl e)
      | Response status body \<Rightarrow>
          (let s1 = s\<lparr>response_delay_seconds := delay inp\<rparr>
           in if status = 503 then
                (py_print ''Data Lake unavailable! 503 detected.''
                   (send_alert ''Data Lake unavailable! 503 detected''
                      (s1\<lparr>datalake_unavailable := datalake_unavailable s1 + 1\<rparr>)), Inr None)
              else case body of
                     None \<Rightarrow> (s1, Inl JSONDecodeError)
                   | Some data \<Rightarrow>
                       (case (if is_list data then Inr data
                              else dict_get data ''records'' (JArr [])) of
                          Inl e \<Rightarrow> (s1, Inl e)
                        | Inr records \<Rightarrow>
                            (case py_len records of
                               Inl e \<Rightarrow> (s1, Inl e)
                             | Inr n \<Rightarrow>
                                 (s1\<lparr>records_processed_total := records_processed_total s1 + n\<rparr>,
                                  Inr (Some records))))))"

text \<open>\<^verbatim>\<open>fetch_records()\<close>: the records, or \<open>None\<close> for Python's \<^verbatim>\<open>None\<close>; it never raises.\<close>

definition fetch_records ::
  "('m, 'f) library \<Rightarrow> cycle_input \<Rightarrow> ('m, 'f) ml_state \<Rightarrow> ('m, 'f) ml_state \<times> json option" where
  "fetch_records lib inp s =
     (case fetch_try inp s of
        (s', Inr r) \<Rightarrow> (s', r)
      | (s', Inl e) \<Rightarrow>
          (py_print (''Error fetching data: '' @ str_exn lib e)
             (send_alert (''Error fetching data: '' @ str_exn lib e)
                (s'\<lparr>datalake_unavailable := datalake_unavailable s' + 1\<rparr>)), None))"

text \<open>\<^verbatim>\<open>records[0].get('features', [])\<close>\<close>

definition first_features :: "json \<Rightarrow> exn + json" where
  "first_features records =
     (case getitem_idx records 0 of
        Inl e \<Rightarrow> Inl e
      | Inr r0 \<Rightarrow> dict_get r0 ''features'' (JArr []))"

text \<open>\<^verbatim>\<open>detect_feature_changes(records)\<close>, lines 75-89.\<close>

definition detect_feature_changes ::
  "('m, 'f) library \<Rightarrow> json \<Rightarrow> ('m, 'f) ml_state \<Rightarrow> ('m, 'f) ml_state \<times> exn option" where
  "detect_feature_changes lib records s =
     (case first_features records of
        Inl e \<Rightarrow> (s, Some e)
      | Inr f \<Rightarrow>
          (case py_set f of
             Inl e \<Rightarrow> (s, Some e)
           | Inr new_features_set \<Rightarrow>
               (let added = new_features_set - previous_features s;
                    removed = previous_features s - new_features_set;
                    s1 = (if added \<noteq> {} then
                            send_alert (''New feature(s) added: '' @ str_set lib added)
                              (s\<lparr>feature_added := feature_added s + card added\<rparr>)
                          else s);
                    s2 = (if removed \<noteq> {} then
                            send_alert (''Feature(s) removed: '' @ str_set lib removed)
                              (s1\<lparr>feature_removed := feature_removed s1 + card removed\<rparr>)
                          else s1)
                in (s2\<lparr>previous_features := new_features_set\<rparr>, None))))"

text \<open>Line 96: \<^verbatim>\<open>[r['features'][idx] for r in records]\<close>\<close>

definition feature_column :: "json list \<Rightarrow> nat \<Rightarrow> exn + json list" where
  "feature_column rs idx =
     map_raise
       (\<lambda>r. case getitem_key r ''features'' of Inl e \<Rightarrow> Inl e | Inr f \<Rightarrow> getitem_idx f idx)
       rs"

text \<open>
  Lines 97-98: the mean of the column and its deviation, \<^verbatim>\<open>0.0\<close> for a single value.
\<close>

definition column_stat :: "('m, 'f) library \<Rightarrow> json list \<Rightarrow> nat \<Rightarrow> exn + 'f \<times> 'f" where
  "column_stat lib rs idx =
     (case feature_column rs idx of
        Inl e \<Rightarrow> Inl e
      | Inr vals \<Rightarrow>
          (case statistics_mean lib vals of
             Inl e \<Rightarrow> Inl e
           | Inr mean_val \<Rightarrow>
               (case (if length vals > 1 then statistics_stdev lib vals
                      else Inr (lit_0_0 lib)) of
                  Inl e \<Rightarrow> Inl e
                | Inr std_val \<Rightarrow> Inr (mean_val, std_val))))"

text \<open>\<^verbatim>\<open>max(a, b)\<close>: the first argument unless the second is greater.\<close>

definition py_max :: "('m, 'f) library \<Rightarrow> 'f \<Rightarrow> 'f \<Rightarrow> 'f" where
  "py_max lib a b = (if num_gt lib b a then b else a)"

text \<open>
  Line 102, \<^verbatim>\<open>abs(mean_val - old_mean) > max(0.1, 0.2 * old_std)\<close>, in Python's
  arithmetic and in its order of evaluation.
\<close>

definition drifted :: "('m, 'f) library \<Rightarrow> 'f \<Rightarrow> 'f \<times> 'f \<Rightarrow> exn + bool" where
  "drifted lib mean_val old =
     (case num_sub lib mean_val (fst old) of
        Inl e \<Rightarrow> Inl e
      | Inr diff \<Rightarrow>
          (case num_mul lib (lit_0_2 lib) (snd old) of
             Inl e \<Rightarrow> Inl e
           | Inr scaled \<Rightarrow>
               Inr (num_gt lib (num_abs lib diff) (py_max lib (lit_0_1 lib) scaled))))"

text \<open>
  The loop of \<^verbatim>\<open>detect_drift\<close>, lines 95-104, over the indices still to visit: the
  statistics and the flag so far, and the exception that ended the loop, if any.
\<close>

fun drift_loop ::
  "('m, 'f) library \<Rightarrow> json list \<Rightarrow> nat list \<Rightarrow> (nat \<rightharpoonup> 'f \<times> 'f) \<Rightarrow> bool \<Rightarrow>
     ((nat \<rightharpoonup> 'f \<times> 'f) \<times> bool) \<times> exn option" where
  "drift_loop lib rs [] st d = ((st, d), None)"
| "drift_loop lib rs (idx # rest) st d =
     (case column_stat lib rs idx of
        Inl e \<Rightarrow> ((st, d), Some e)
      | Inr new \<Rightarrow>
          (case (case st idx of
                   None \<Rightarrow> Inr d
                 | Some old \<Rightarrow>
                     (case drifted lib (fst new) old of
                        Inl e \<Rightarrow> Inl e
                      | Inr b \<Rightarrow> Inr (if b then True else d))) of
             Inl e \<Rightarrow> ((st, d), Some e)
           | Inr d' \<Rightarrow> drift_loop lib rs rest (st(idx \<mapsto> new)) d'))"

text \<open>\<^verbatim>\<open>detect_drift(records)\<close>, lines 91-110.\<close>

definition detect_drift ::
  "('m, 'f) library \<Rightarrow> json \<Rightarrow> ('m, 'f) ml_state \<Rightarrow> ('m, 'f) ml_state \<times> exn option" where
  "detect_drift lib records s =
     (case first_features records of
        Inl e \<Rightarrow> (s, Some e)
      | Inr f \<Rightarrow>
          (case py_iter f of
             Inl e \<Rightarrow> (s, Some e)
           | Inr fs \<Rightarrow>
               (case py_iter records of
                  Inl e \<Rightarrow> (s, Some e)
                | Inr rs \<Rightarrow>
                    (case drift_loop lib rs [0..<length fs] (feature_stats s) False of
                       ((st, d), Some e) \<Rightarrow> (s\<lparr>feature_stats := st\<rparr>, Some e)
                     | ((st, d), None) \<Rightarrow>
                         (let s1 = s\<lparr>feature_stats := st\<rparr>
                          in if d then
                               (send_alert ''Distribution drift detected''
                                  (s1\<lparr>distribution_drift_detected := 1\<rparr>), None)
                             else (s1\<lparr>distribution_drift_detected := 0\<rparr>, None))))))"

text \<open>Lines 146-151: records with both fields present (and not null) join the history.\<close>

fun append_items :: "json list \<Rightarrow> ('m, 'f) ml_state \<Rightarrow> ('m, 'f) ml_state \<times> exn option" where
  "append_items [] s = (s, None)"
| "append_items (item # items) s =
     (case dict_get item ''features'' JNull of
        Inl e \<Rightarrow> (s, Some e)
      | Inr features \<Rightarrow>
          (case dict_get item ''label'' JNull of
             Inl e \<Rightarrow> (s, Some e)
           | Inr label \<Rightarrow>
               append_items items
                 (if features \<noteq> JNull \<and> label \<noteq> JNull then
                    s\<lparr>ml_X := ml_X s @ [features], ml_y := ml_y s @ [label]\<rparr>
                  else s)))"

text \<open>\<^verbatim>\<open>train_model()\<close>, lines 112-133: the accuracy it returns, or what it raised.\<close>

definition train_model :: "('m, 'f) library \<Rightarrow> ('m, 'f) ml_state \<Rightarrow> ('m, 'f) ml_state \<times> (exn + real)" where
  "train_model lib s =
     (if length (ml_X s) < MIN_SAMPLES_TO_TRAIN then (s, Inr 0)
      else case np_array lib (ml_X s) of
             Inl e \<Rightarrow> (s, Inl e)
           | Inr Xa \<Rightarrow>
               (case np_array lib (ml_y s) of
                  Inl e \<Rightarrow> (s, Inl e)
                | Inr ya \<Rightarrow>
                    (case train_test_split lib Xa ya 0.3 (Some 42) of
                       Inl e \<Rightarrow> (s, Inl e)
                     | Inr (X_train, X_test, y_train, y_test) \<Rightarrow>
                         (case model_fit lib X_train y_train s of
                            (s1, Some e) \<Rightarrow> (s1, Inl e)
                          | (s1, None) \<Rightarrow>
                              (case sk_predict lib (model s1) X_test of
                                 Inl e \<Rightarrow> (s1, Inl e)
                               | Inr preds \<Rightarrow>
                                   (case accuracy_score lib y_test preds of
                                      Inl e \<Rightarrow> (s1, Inl e)
                                    | Inr acc \<Rightarrow>
                                        (let s2 = s1\<lparr>model_accuracy := acc,
                                                      retrain_count_total := retrain_count s1\<rparr>
                                         in if acc < RETRAIN_THRESHOLD then
                                              (send_alert
                                                 (''Accuracy dropped below '' @
                                                  format_2f lib RETRAIN_THRESHOLD @
                                                  '': retraining needed'')
                                                 (s2\<lparr>retrain_count := retrain_count s2 + 1\<rparr>),
                                               Inr acc)
                                            else (s2, Inr acc))))))))"

text \<open>Lines 153-161: train, report, save every \<^verbatim>\<open>SAVE_INTERVAL\<close> cycles, count the cycle.\<close>

definition save_and_count :: "('m, 'f) ml_state \<Rightarrow> ('m, 'f) ml_state" where
  "save_and_count s =
     (let s1 = (if (current_cycle s + 1) mod SAVE_INTERVAL = 0 then
                  (let model_file =
                         ''model_cycle_'' @ str_nat (current_cycle s + 1) @ ''.joblib''
                   in py_print (''Model saved: '' @ model_file)
                        (s\<lparr>saved := saved s @ [(model_file, model s)]\<rparr>))
                else s)
      in s1\<lparr>current_cycle := current_cycle s1 + 1\<rparr>)"

definition train_and_save ::
  "('m, 'f) library \<Rightarrow> json \<Rightarrow> ('m, 'f) ml_state \<Rightarrow> ('m, 'f) ml_state \<times> exn option" where
  "train_and_save lib records s =
     (case train_model lib s of
        (s1, Inl e) \<Rightarrow> (s1, Some e)
      | (s1, Inr acc) \<Rightarrow>
          (case py_len records of
             Inl e \<Rightarrow> (s1, Some e)
           | Inr n \<Rightarrow>
               (save_and_count
                  (py_print
                     (''Cycle '' @ str_nat (current_cycle s1 + 1) @ ''/'' @
                      str_nat TRAIN_CYCLES @ '': Accuracy='' @ format_2f lib acc @
                      '', Records='' @ str_nat n) s1), None)))"

text \<open>Lines 142-161, the body of \<^verbatim>\<open>if records:\<close>.\<close>

definition process_ml :: "('m, 'f) library \<Rightarrow> json \<Rightarrow> ('m, 'f) ml_state \<Rightarrow> ('m, 'f) ml_state \<times> exn option" where
  "process_ml lib records s =
     (case detect_feature_changes lib records s of
        (s1, Some e) \<Rightarrow> (s1, Some e)
      | (s1, None) \<Rightarrow>
          (case detect_drift lib records s1 of
             (s2, Some e) \<Rightarrow> (s2, Some e)
           | (s2, None) \<Rightarrow>
               (case py_iter records of
                  Inl e \<Rightarrow> (s2, Some e)
                | Inr items \<Rightarrow>
                    (case append_items items s2 of
                       (s3, Some e) \<Rightarrow> (s3, Some e)
                     | (s3, None) \<Rightarrow> train_and_save lib records s3))))"

text \<open>One iteration of the \<^verbatim>\<open>while\<close> loop, lines 141-161; nothing here catches.\<close>

definition cycle_ml ::
  "('m, 'f) library \<Rightarrow> cycle_input \<Rightarrow> ('m, 'f) ml_state \<Rightarrow> ('m, 'f) ml_state \<times> exn option" where
  "cycle_ml lib inp s =
     (case fetch_records lib inp s of
        (s1, None) \<Rightarrow> (s1, None)
      | (s1, Some records) \<Rightarrow>
          (if truthy records then process_ml lib records s1 else (s1, None)))"

text \<open>Lines 165-167: the final save once the loop condition fails.\<close>

definition final_save :: "('m, 'f) ml_state \<Rightarrow> ('m, 'f) ml_state" where
  "final_save s =
     py_print ''Training complete. Final model saved.''
       (s\<lparr>saved := saved s @ [(''ml_model_final.joblib'', model s)]\<rparr>)"

text \<open>\<^verbatim>\<open>ingestion_loop\<close>, lines 140-167, over the polls \<open>inps\<close>.\<close>

fun ingestion_loop ::
  "('m, 'f) library \<Rightarrow> cycle_input list \<Rightarrow> ('m, 'f) ml_state \<Rightarrow> ('m, 'f) ml_state loop_outcome" where
  "ingestion_loop lib [] s =
     (if current_cycle s < TRAIN_CYCLES then Running s else Halted (final_save s))"
| "ingestion_loop lib (inp # inps) s =
     (if current_cycle s < TRAIN_CYCLES then
        (case cycle_ml lib inp s of
           (s', Some e) \<Rightarrow> Crashed e s'
         | (s', None) \<Rightarrow> ingestion_loop lib inps s')
      else Halted (final_save s))"

section \<open>A small concrete library and concrete states, for evaluation\<close>

text \<open>
  A stand-in for \<^verbatim>\<open>float\<close> on plain decimals (an optional minus sign, digits, at
  most one point), enough to read the requests of the examples.
\<close>

definition is_digit :: "char \<Rightarrow> bool" where
  "is_digit c = (48 \<le> (of_char c :: nat) \<and> (of_char c :: nat) \<le> 57)"

definition digits_value :: "string \<Rightarrow> nat" where
  "digits_value ds = foldl (\<lambda>a c. 10 * a + (of_char c - 48)) 0 ds"

definition plain_decimal :: "string \<Rightarrow> exn + real" where
  "plain_decimal s =
     (let neg = (s \<noteq> [] \<and> hd s = CHR ''-'');
          body = (if neg then tl s else s);
          ip = takeWhile (\<lambda>c. c \<noteq> CHR ''.'') body;
          fp = drop (length ip + 1) body
      in if ip @ fp \<noteq> [] \<and> list_all is_digit (ip @ fp) then
           Inr ((if neg then - 1 else 1) *
                (real (digits_value ip) + real (digits_value fp) / 10 ^ length fp))
         else Inl ValueError)"

text \<open>
  The sample classifier is the data of its last fit; it predicts the first training
  label for every row and refuses rows whose width differs from the training rows'.
  The sample split keeps the last \<open>\<lceil>test_size * n\<rceil>\<close> samples for the test part.
\<close>

definition sample_predict :: "json list \<times> json list \<Rightarrow> json list \<Rightarrow> exn + json list" where
  "sample_predict m X =
     (case m of
        (x0 # _, l0 # _) \<Rightarrow>
          (if list_all (\<lambda>x. py_len x = py_len x0) X then Inr (map (\<lambda>_. l0) X)
           else Inl ValueError)
      | _ \<Rightarrow> Inl (LibraryError ''not fitted''))"

definition sample_split ::
  "json list \<Rightarrow> json list \<Rightarrow> real \<Rightarrow> nat option \<Rightarrow>
     exn + (json list \<times> json list \<times> json list \<times> json list)" where
  "sample_split X y test_size seed =
     (if length X \<noteq> length y then Inl ValueError
      else (let k = length X - nat \<lceil>test_size * real (length X)\<rceil>
            in if k = 0 then Inl ValueError
               else Inr (take k X, drop k X, take k y, drop k y)))"

definition sample_accuracy :: "json list \<Rightarrow> json list \<Rightarrow> exn + real" where
  "sample_accuracy y_true y_pred =
     (if length y_true \<noteq> length y_pred \<or> y_true = [] then Inl ValueError
      else Inr (real (length (filter (\<lambda>p. fst p = snd p) (zip y_true y_pred))) /
                real (length y_true)))"

definition sample_int :: "json \<Rightarrow> exn + int" where
  "sample_int v = (case v of JNum x \<Rightarrow> Inr \<lfloor>x\<rfloor> | _ \<Rightarrow> Inl TypeError)"

definition sample_str_exn :: "exn \<Rightarrow> string" where
  "sample_str_exn e =
     (case e of
        KeyError \<Rightarrow> ''KeyError''
      | TypeError \<Rightarrow> ''TypeError''
      | IndexError \<Rightarrow> ''IndexError''
      | ValueError \<Rightarrow> ''ValueError''
      | AttributeError \<Rightarrow> ''AttributeError''
      | StatisticsError \<Rightarrow> ''StatisticsError''
      | JSONDecodeError \<Rightarrow> ''JSONDecodeError''
      | RequestException msg \<Rightarrow> msg
      | LibraryError msg \<Rightarrow> msg)"

text \<open>A number as the \<^verbatim>\<open>statistics\<close> module reads it (\<^verbatim>\<open>bool\<close> is a subclass of \<^verbatim>\<open>int\<close>).\<close>

fun as_number :: "json \<Rightarrow> exn + real" where
  "as_number (JNum x) = Inr x"
| "as_number (JBool b) = Inr (if b then 1 else 0)"
| "as_number _ = Inl TypeError"

text \<open>
  Stand-ins for \<^verbatim>\<open>statistics.mean\<close> and \<^verbatim>\<open>statistics.stdev\<close> (the sample standard
  deviation), computed without rounding.
\<close>

definition mean_of :: "real list \<Rightarrow> real" where
  "mean_of xs = sum_list xs / real (length xs)"

definition stdev_of :: "real list \<Rightarrow> real" where
  "stdev_of xs =
     sqrt (sum_list (map (\<lambda>x. (x - mean_of xs)\<^sup>2) xs) / real (length xs - 1))"

definition sample_mean :: "json list \<Rightarrow> exn + real" where
  "sample_mean vals =
     (if vals = [] then Inl StatisticsError
      else case map_raise as_number vals of
             Inl e \<Rightarrow> Inl e
           | Inr xs \<Rightarrow> Inr (mean_of xs))"

definition sample_stdev :: "json list \<Rightarrow> exn + real" where
  "sample_stdev vals =
     (if length vals < 2 then Inl StatisticsError
      else case map_raise as_number vals of
             Inl e \<Rightarrow> Inl e
           | Inr xs \<Rightarrow> Inr (stdev_of xs))"

text \<open>
  The sample arithmetic is on reals, without rounding; the literals are the doubles
  next to 0.1 and 0.2. The sample webhook refuses the committed URL.
\<close>

definition double_0_1 :: real where
  "double_0_1 = 3602879701896397 / 36028797018963968"

definition double_0_2 :: real where
  "double_0_2 = 3602879701896397 / 18014398509481984"

text \<open>A stand-in for \<^verbatim>\<open>f"{x:.2f}"\<close> on non-negative values.\<close>

definition sample_format_2f :: "real \<Rightarrow> string" where
  "sample_format_2f x =
     (let n = nat \<lfloor>x * 100 + 1 / 2\<rfloor>
      in str_nat (n div 100) @ ''.'' @ str_nat (n div 10 mod 10) @ str_nat (n mod 10))"

definition sample_lib :: "(json list \<times> json list, real) library" where
  "sample_lib =
     \<lparr>train_test_split = sample_split,
      sk_fit = (\<lambda>m X y. ((X, y), None)),
      sk_predict = sample_predict,
      accuracy_score = sample_accuracy,
      np_array = Inr,
      py_float = plain_decimal,
      py_int = sample_int,
      str_exn = sample_str_exn,
      format_2f = sample_format_2f,
      str_set = (\<lambda>A. ''{'' @ str_nat (card A) @ '' elements}''),
      slack_post = (\<lambda>message. PostError (RequestException ''Invalid URL'')),
      statistics_mean = sample_mean,
      statistics_stdev = sample_stdev,
      lit_0_0 = 0,
      lit_0_1 = double_0_1,
      lit_0_2 = double_0_2,
      num_sub = (\<lambda>a b. Inr (a - b)),
      num_mul = (\<lambda>a b. Inr (a * b)),
      num_abs = abs,
      num_gt = (\<lambda>a b. a > b)\<rparr>"

text \<open>One labelled record, and a list payload of such records.\<close>

definition rec_of :: "real list \<Rightarrow> real \<Rightarrow> json" where
  "rec_of fs l = JObj [(''features'', JArr (map JNum fs)), (''label'', JNum l)]"

definition poll :: "json \<Rightarrow> cycle_input" where
  "poll body = \<lparr>delay = 0.5, reply = Response 200 (Some body)\<rparr>"

text \<open>The service before its first poll, holding a model fitted on two features.\<close>

definition main0 :: "(json list \<times> json list) main_state" where
  "main0 =
     \<lparr>model = ([JArr [JNum 1, JNum 2]], [JNum 7]), fit_log = [], model_accuracy = 0,
      records_processed_total = 0, retrain_count_total = 0, distribution_drift_detected = 0,
      feature_added = 0, feature_removed = 0, datalake_unavailable = 0,
      response_delay_seconds = 0, alerts = [], printed = [],
      X_history = [], y_history = [], previous_features_count = 0\<rparr>"

text \<open>The training loop before its first poll (lines 34-39).\<close>

definition ml0 :: "(json list \<times> json list, real) ml_state" where
  "ml0 =
     \<lparr>model = ([], []), fit_log = [], model_accuracy = 0,
      records_processed_total = 0, retrain_count_total = 0, distribution_drift_detected = 0,
      feature_added = 0, feature_removed = 0, datalake_unavailable = 0,
      response_delay_seconds = 0, alerts = [], printed = [],
      ml_X = [], ml_y = [], retrain_count = 0, current_cycle = 0,
      previous_features = {}, feature_stats = Map.empty, saved = []\<rparr>"

section \<open>Well-formed batches\<close>

text \<open>
  A record of width \<open>w\<close> is a dict whose \<^verbatim>\<open>features\<close> is a list of \<open>w\<close> numbers and
  which has a \<^verbatim>\<open>label\<close>; a uniform batch is a non-empty list of such records.
\<close>

definition is_number :: "json \<Rightarrow> bool" where
  "is_number v = (case v of JNum x \<Rightarrow> True | _ \<Rightarrow> False)"

definition features_of :: "json \<Rightarrow> json list" where
  "features_of r =
     (case r of
        JObj kv \<Rightarrow> (case map_of kv ''features'' of Some (JArr fs) \<Rightarrow> fs | _ \<Rightarrow> [])
      | _ \<Rightarrow> [])"

definition label_of :: "json \<Rightarrow> json" where
  "label_of r =
     (case r of
        JObj kv \<Rightarrow> (case map_of kv ''label'' of Some l \<Rightarrow> l | None \<Rightarrow> JNull)
      | _ \<Rightarrow> JNull)"

definition is_record :: "nat \<Rightarrow> json \<Rightarrow> bool" where
  "is_record w r =
     (case r of
        JObj kv \<Rightarrow>
          (case map_of kv ''features'' of
             Some (JArr fs) \<Rightarrow>
               length fs = w \<and> list_all is_number fs \<and> map_of kv ''label'' \<noteq> None
           | _ \<Rightarrow> False)
      | _ \<Rightarrow> False)"

definition uniform_batch :: "nat \<Rightarrow> json list \<Rightarrow> bool" where
  "uniform_batch w rs = (rs \<noteq> [] \<and> list_all (is_record w) rs)"

text \<open>The state a loop was last seen in.\<close>

fun outcome_state :: "'s loop_outcome \<Rightarrow> 's" where
  "outcome_state (Running s) = s"
| "outcome_state (Halted s) = s"
| "outcome_state (Crashed e s) = s"

text \<open>Alerts of the set-based detector that announce added features.\<close>

definition added_alert :: "string \<Rightarrow> bool" where
  "added_alert a = (take 22 a = ''New feature(s) added: '')"

text \<open>The service and the training loop with a given history.\<close>

definition main_with :: "json list \<Rightarrow> json list \<Rightarrow> (json list \<times> json list) main_state" where
  "main_with X y = main0\<lparr>X_history := X, y_history := y, previous_features_count := 2\<rparr>"

definition ml_with :: "json list \<Rightarrow> json list \<Rightarrow> (json list \<times> json list, real) ml_state" where
  "ml_with X y = ml0\<lparr>ml_X := X, ml_y := y\<rparr>"

definition row :: json where
  "row = JArr [JNum 1, JNum 2]"

section \<open>Batch statistics, for stating the drift properties\<close>





section \<open>Properties\<close>

subsection \<open>Fetch failures\<close>

text \<open>
  C7. A poll answered with status 503 leaves the processed-records counter alone, adds
  exactly one to the unavailable counter and raises one alert; apart from the latency
  gauge and the lines the alert prints nothing else changes, in either variant: neither the history, nor the stored
  feature baseline, nor the stored statistics, nor the model, nor the cycle counter.
\<close>

theorem unavailable_503:
  assumes "reply inp = Response 503 body"
  shows "cycle_main lib inp s =
           s\<lparr>response_delay_seconds := delay inp,
             datalake_unavailable := datalake_unavailable s + 1,
             alerts := alerts s @ [''Data Lake 503 - Service Unavailable''],
             printed := printed s @ slack_lines lib ''Data Lake 503 - Service Unavailable''\<rparr>
         \<and> cycle_ml lib inp t =
           (t\<lparr>response_delay_seconds := delay inp,
              datalake_unavailable := datalake_unavailable t + 1,
              alerts := alerts t @ [''Data Lake unavailable! 503 detected''],
              printed := printed t @ [''ALERT: Data Lake unavailable! 503 detected'',
                                      ''Data Lake unavailable! 503 detected.'']\<rparr>, None)"
  using assms
  by (simp add: cycle_main_def try_body_main_def send_slack_alert_def cycle_ml_def
      fetch_records_def fetch_try_def send_alert_def py_print_def)

lemma sample_slack_lines: "slack_lines sample_lib message = [''Slack alert failed: Invalid URL'']"
  by (simp add: slack_lines_def SLACK_WEBHOOK_def sample_lib_def sample_str_exn_def)

theorem unavailable_503_witness:
  "cycle_main sample_lib \<lparr>delay = 1, reply = Response 503 None\<rparr> main0 =
     main0\<lparr>response_delay_seconds := 1, datalake_unavailable := 1,
           alerts := [''Data Lake 503 - Service Unavailable''],
           printed := [''Slack alert failed: Invalid URL'']\<rparr>
   \<and> records_processed_total
         (fst (cycle_ml sample_lib \<lparr>delay = 1, reply = Response 503 None\<rparr> ml0)) = 0
   \<and> datalake_unavailable
         (fst (cycle_ml sample_lib \<lparr>delay = 1, reply = Response 503 None\<rparr> ml0)) = 1
   \<and> alerts (fst (cycle_ml sample_lib \<lparr>delay = 1, reply = Response 503 None\<rparr> ml0)) =
         [''Data Lake unavailable! 503 detected'']"
  using unavailable_503 [of "\<lparr>delay = 1, reply = Response 503 None\<rparr>" None sample_lib main0 ml0]
  by (simp add: main0_def ml0_def sample_slack_lines)

text \<open>
  C8, as the code has it. When \<^verbatim>\<open>requests.get\<close> raises, \<^verbatim>\<open>main.py\<close> only prints
  the error: no alert, no counter, no other change. \<^verbatim>\<open>ml_model.py\<close> handles the same
  failure inside \<^verbatim>\<open>fetch_records\<close>: it adds one to the unavailable counter and raises
  an alert naming the error; the cycle counter stays as it was and nothing is processed.
\<close>

theorem network_failure:
  assumes "reply inp = ConnFail e"
  shows "cycle_main lib inp s = s\<lparr>printed := printed s @ [''Loop Error: '' @ str_exn lib e]\<rparr>
         \<and> cycle_ml lib inp t =
           (t\<lparr>datalake_unavailable := datalake_unavailable t + 1,
              alerts := alerts t @ [''Error fetching data: '' @ str_exn lib e],
              printed := printed t @ [''ALERT: Error fetching data: '' @ str_exn lib e,
                                      ''Error fetching data: '' @ str_exn lib e]\<rparr>, None)"
  using assms
  by (simp add: cycle_main_def try_body_main_def cycle_ml_def
      fetch_records_def fetch_try_def send_alert_def py_print_def)

theorem network_failure_witness:
  "cycle_main sample_lib \<lparr>delay = 0, reply = ConnFail (RequestException ''timed out'')\<rparr> main0 =
     main0\<lparr>printed := [''Loop Error: timed out'']\<rparr>
   \<and> current_cycle
       (fst (cycle_ml sample_lib \<lparr>delay = 0, reply = ConnFail (RequestException ''timed out'')\<rparr>
          ml0)) = 0"
  using network_failure [of "\<lparr>delay = 0, reply = ConnFail (RequestException ''timed out'')\<rparr>"
      "RequestException ''timed out''" sample_lib main0 ml0]
  by (simp add: main0_def ml0_def sample_lib_def sample_str_exn_def)

text \<open>
  The claim as written (no alert, no increment of the unavailable counter) fails in
  \<^verbatim>\<open>ml_model.py\<close>: after one timed-out poll from the initial state the counter is 1
  and one alert has been raised.
\<close>

theorem network_failure_ml_alerts:
  "datalake_unavailable
     (fst (cycle_ml sample_lib \<lparr>delay = 0, reply = ConnFail (RequestException ''timed out'')\<rparr>
        ml0)) = 1
   \<and> alerts
     (fst (cycle_ml sample_lib \<lparr>delay = 0, reply = ConnFail (RequestException ''timed out'')\<rparr>
        ml0)) = [''Error fetching data: timed out'']"
  by (simp add: cycle_ml_def fetch_records_def fetch_try_def send_alert_def py_print_def
      sample_lib_def sample_str_exn_def ml0_def)

subsection \<open>The prediction endpoint\<close>

lemma sample_parse:
  "plain_decimal ''680.2'' = Inr 680.2" "plain_decimal ''679.3'' = Inr 679.3"
  "plain_decimal ''1'' = Inr 1" "plain_decimal ''2'' = Inr 2" "plain_decimal ''3'' = Inr 3"
  by (simp_all add: plain_decimal_def is_digit_def digits_value_def)

text \<open>
  C9. For every request string, \<^verbatim>\<open>predict\<close> returns either an integer label or an
  error payload; no exception leaves it. If the two numbers of \<^verbatim>\<open>"680.2,679.3"\<close> parse
  and the model predicts a label for that vector, the label comes back as an integer;
  if the model refuses the three-feature vector of \<^verbatim>\<open>"1,2,3"\<close>, the refusal comes
  back as an error payload.
\<close>

theorem predict_never_raises:
  "((\<exists>n. predict lib m features = Returned (Prediction n)) \<or>
    (\<exists>msg. predict lib m features = Returned (ErrorPayload msg)))
   \<and> (py_float lib ''680.2'' = Inr 680.2 \<and> py_float lib ''679.3'' = Inr 679.3 \<and>
        sk_predict lib m [JArr [JNum 680.2, JNum 679.3]] = Inr (l # ls) \<and> py_int lib l = Inr n
        \<longrightarrow> predict lib m ''680.2,679.3'' = Returned (Prediction n))
   \<and> (py_float lib ''1'' = Inr 1 \<and> py_float lib ''2'' = Inr 2 \<and> py_float lib ''3'' = Inr 3 \<and>
        sk_predict lib m [JArr [JNum 1, JNum 2, JNum 3]] = Inl e
        \<longrightarrow> predict lib m ''1,2,3'' = Returned (ErrorPayload (str_exn lib e)))"
  by (simp add: predict_def predict_try_def split: sum.splits)

theorem predict_never_raises_witness:
  "predict sample_lib ([JArr [JNum 1, JNum 2]], [JNum 7]) ''680.2,679.3'' =
     Returned (Prediction 7)
   \<and> predict sample_lib ([JArr [JNum 1, JNum 2]], [JNum 7]) ''1,2,3'' =
     Returned (ErrorPayload ''ValueError'')"
  using predict_never_raises [of sample_lib "([JArr [JNum 1, JNum 2]], [JNum 7])" "''x''"
      "JNum 7" "[]" 7 ValueError]
  by (simp add: sample_lib_def sample_parse sample_predict_def sample_int_def sample_str_exn_def)

subsection \<open>Well-formed batches through the service cycle\<close>

lemma is_record_shape:
  assumes "is_record w r"
  obtains kv fs l where "r = JObj kv" "map_of kv ''features'' = Some (JArr fs)"
    "length fs = w" "list_all is_number fs" "map_of kv ''label'' = Some l"
proof (cases r)
  case (JObj kv)
  show ?thesis
  proof (cases "map_of kv ''features''")
    case None
    with JObj assms show ?thesis by (simp add: is_record_def)
  next
    case (Some v)
    with JObj assms that show ?thesis
      by (cases v) (auto simp: is_record_def)
  qed
qed (use assms in \<open>simp_all add: is_record_def\<close>)

lemma is_record_getitem:
  assumes "is_record w r"
  shows "getitem_key r ''features'' = Inr (JArr (features_of r))"
    and "getitem_key r ''label'' = Inr (label_of r)"
    and "dict_get r ''features'' d = Inr (JArr (features_of r))"
    and "dict_get r ''label'' d = Inr (label_of r)"
    and "length (features_of r) = w"
    and "list_all is_number (features_of r)"
  using assms
  by (auto elim!: is_record_shape simp: features_of_def label_of_def)

lemma append_history_records:
  "list_all (is_record w) rs \<Longrightarrow>
   append_history rs s =
     (s\<lparr>X_history := X_history s @ map (\<lambda>r. JArr (features_of r)) rs,
        y_history := y_history s @ map label_of rs\<rparr>, None)"
proof (induction rs arbitrary: s)
  case Nil
  then show ?case by simp
next
  case (Cons r rs)
  then have "is_record w r" by simp
  note r = is_record_getitem(1,2) [OF this]
  from Cons show ?case by (simp add: r)
qed

lemma current_feat_count_uniform:
  assumes "uniform_batch w rs"
  shows "current_feat_count (JArr rs) = Inr w"
proof (cases rs)
  case Nil
  with assms show ?thesis by (simp add: uniform_batch_def)
next
  case (Cons r rs')
  with assms have "is_record w r" by (simp add: uniform_batch_def)
  note r = is_record_getitem(1,5) [OF this]
  from Cons show ?thesis by (simp add: current_feat_count_def r)
qed

lemma retrain_main_frame:
  "previous_features_count (fst (retrain_main lib s)) = previous_features_count s"
  "feature_added (fst (retrain_main lib s)) = feature_added s"
  "feature_removed (fst (retrain_main lib s)) = feature_removed s"
  "count_list (alerts (fst (retrain_main lib s))) ''Feature Added detected'' =
     count_list (alerts s) ''Feature Added detected''"
  by (auto simp: retrain_main_def model_fit_def send_slack_alert_def Let_def
      split: sum.splits prod.splits option.splits)

lemma process_main_uniform:
  assumes "uniform_batch w rs"
  shows "process_main lib (Some (JArr rs)) s =
           retrain_main lib
             (feature_change_main lib w
                (s\<lparr>records_processed_total := records_processed_total s + length rs,
                   X_history := X_history s @ map (\<lambda>r. JArr (features_of r)) rs,
                   y_history := y_history s @ map label_of rs\<rparr>))"
proof -
  from assms have ne: "rs \<noteq> []" and all: "list_all (is_record w) rs"
    by (simp_all add: uniform_batch_def)
  show ?thesis
    by (simp add: process_main_def ne append_history_records [OF all]
        current_feat_count_uniform [OF assms])
qed

lemma cycle_main_fields:
  "previous_features_count (cycle_main lib inp s) =
     previous_features_count (fst (try_body_main lib inp s))"
  "feature_added (cycle_main lib inp s) = feature_added (fst (try_body_main lib inp s))"
  "feature_removed (cycle_main lib inp s) = feature_removed (fst (try_body_main lib inp s))"
  "alerts (cycle_main lib inp s) = alerts (fst (try_body_main lib inp s))"
  "fit_log (cycle_main lib inp s) = fit_log (fst (try_body_main lib inp s))"
  "model (cycle_main lib inp s) = model (fst (try_body_main lib inp s))"
  "X_history (cycle_main lib inp s) = X_history (fst (try_body_main lib inp s))"
  by (cases "try_body_main lib inp s"; cases "snd (try_body_main lib inp s)";
      simp add: cycle_main_def)+

subsection \<open>Well-formed batches through the training cycle\<close>

lemma fetch_records_list:
  assumes "reply inp = Response st (Some (JArr rs))" and "st \<noteq> 503"
  shows "fetch_records lib inp t =
           (t\<lparr>response_delay_seconds := delay inp,
              records_processed_total := records_processed_total t + length rs\<rparr>,
            Some (JArr rs))"
  using assms by (simp add: fetch_records_def fetch_try_def)

lemma map_raise_hash_key_numbers:
  "list_all is_number fs \<Longrightarrow> map_raise hash_key fs = Inr fs"
  by (induction fs) (auto simp: is_number_def split: json.splits)

lemma py_set_numbers: "list_all is_number fs \<Longrightarrow> py_set (JArr fs) = Inr (set fs)"
  by (simp add: py_set_def map_raise_hash_key_numbers)

lemma first_features_uniform:
  assumes "uniform_batch w rs"
  shows "first_features (JArr rs) = Inr (JArr (features_of (hd rs)))"
proof (cases rs)
  case Nil
  with assms show ?thesis by (simp add: uniform_batch_def)
next
  case (Cons r rs')
  with assms have "is_record w r" by (simp add: uniform_batch_def)
  note r = is_record_getitem(3) [OF this]
  from Cons show ?thesis by (simp add: first_features_def r)
qed

lemma hd_uniform: "uniform_batch w rs \<Longrightarrow> is_record w (hd rs)"
  by (cases rs) (simp_all add: uniform_batch_def)

lemma feature_alerts_fields:
  fixes t :: "('m, 'f) ml_state" and A R :: "json set" and lib :: "('m, 'f) library"
  defines "s1 \<equiv> (if A \<noteq> {} then
                   send_alert (''New feature(s) added: '' @ str_set lib A)
                     (t\<lparr>feature_added := feature_added t + card A\<rparr>)
                 else t)"
  defines "s2 \<equiv> (if R \<noteq> {} then
                   send_alert (''Feature(s) removed: '' @ str_set lib R)
                     (s1\<lparr>feature_removed := feature_removed s1 + card R\<rparr>)
                 else s1)"
  shows "feature_added s2 = feature_added t + card A"
    and "feature_removed s2 = feature_removed t + card R"
    and "alerts s2 = alerts t @
           (if A \<noteq> {} then [''New feature(s) added: '' @ str_set lib A] else []) @
           (if R \<noteq> {} then [''Feature(s) removed: '' @ str_set lib R] else [])"
  by (cases "A = {}"; cases "R = {}"; simp add: s1_def s2_def send_alert_def)+

lemma detect_feature_changes_uniform:
  assumes "uniform_batch w rs"
  defines "new \<equiv> set (features_of (hd rs))"
  shows "snd (detect_feature_changes lib (JArr rs) t) = None"
    and "previous_features (fst (detect_feature_changes lib (JArr rs) t)) = new"
    and "feature_added (fst (detect_feature_changes lib (JArr rs) t)) =
           feature_added t + card (new - previous_features t)"
    and "feature_removed (fst (detect_feature_changes lib (JArr rs) t)) =
           feature_removed t + card (previous_features t - new)"
    and "alerts (fst (detect_feature_changes lib (JArr rs) t)) =
           alerts t @
           (if new - previous_features t \<noteq> {}
            then [''New feature(s) added: '' @ str_set lib (new - previous_features t)] else []) @
           (if previous_features t - new \<noteq> {}
            then [''Feature(s) removed: '' @ str_set lib (previous_features t - new)] else [])"
proof -
  have nums: "list_all is_number (features_of (hd rs))"
    using is_record_getitem(6) [OF hd_uniform [OF assms(1)]] .
  define A where "A = new - previous_features t"
  define R where "R = previous_features t - new"
  define s1 where "s1 = (if A \<noteq> {} then
                   send_alert (''New feature(s) added: '' @ str_set lib A)
                     (t\<lparr>feature_added := feature_added t + card A\<rparr>)
                 else t)"
  define s2 where "s2 = (if R \<noteq> {} then
                   send_alert (''Feature(s) removed: '' @ str_set lib R)
                     (s1\<lparr>feature_removed := feature_removed s1 + card R\<rparr>)
                 else s1)"
  have eq: "detect_feature_changes lib (JArr rs) t = (s2\<lparr>previous_features := new\<rparr>, None)"
    unfolding s2_def s1_def A_def R_def new_def
    by (simp only: detect_feature_changes_def first_features_uniform [OF assms(1)]
        py_set_numbers [OF nums] sum.case Let_def)
  note f = feature_alerts_fields [where A = A and R = R and t = t and lib = lib, folded s1_def, folded s2_def]
  show "snd (detect_feature_changes lib (JArr rs) t) = None"
    by (simp add: eq)
  show "previous_features (fst (detect_feature_changes lib (JArr rs) t)) = new"
    by (simp add: eq)
  show "feature_added (fst (detect_feature_changes lib (JArr rs) t)) =
           feature_added t + card (new - previous_features t)"
    using f(1) by (simp add: eq A_def)
  show "feature_removed (fst (detect_feature_changes lib (JArr rs) t)) =
           feature_removed t + card (previous_features t - new)"
    using f(2) by (simp add: eq R_def)
  show "alerts (fst (detect_feature_changes lib (JArr rs) t)) =
           alerts t @
           (if new - previous_features t \<noteq> {}
            then [''New feature(s) added: '' @ str_set lib (new - previous_features t)] else []) @
           (if previous_features t - new \<noteq> {}
            then [''Feature(s) removed: '' @ str_set lib (previous_features t - new)] else [])"
    using f(3) unfolding A_def R_def eq by simp
qed

lemma detect_drift_frame:
  "previous_features (fst (detect_drift lib records t)) = previous_features t"
  "feature_added (fst (detect_drift lib records t)) = feature_added t"
  "feature_removed (fst (detect_drift lib records t)) = feature_removed t"
  by (simp_all add: detect_drift_def send_alert_def Let_def
      split: sum.split prod.split option.split)

lemma append_items_frame:
  "previous_features (fst (append_items items t)) = previous_features t
   \<and> feature_added (fst (append_items items t)) = feature_added t
   \<and> feature_removed (fst (append_items items t)) = feature_removed t"
  by (induction items arbitrary: t) (simp_all split: sum.split)

lemma train_model_frame:
  "previous_features (fst (train_model lib t)) = previous_features t"
  "feature_added (fst (train_model lib t)) = feature_added t"
  "feature_removed (fst (train_model lib t)) = feature_removed t"
  "current_cycle (fst (train_model lib t)) = current_cycle t"
  by (simp_all add: train_model_def model_fit_def send_alert_def Let_def
      split: sum.split prod.split option.split)

lemma train_and_save_frame:
  "previous_features (fst (train_and_save lib records t)) = previous_features t"
  "feature_added (fst (train_and_save lib records t)) = feature_added t"
  "feature_removed (fst (train_and_save lib records t)) = feature_removed t"
  using train_model_frame(1-3) [of lib t]
  by (cases "train_model lib t";
      simp add: train_and_save_def save_and_count_def py_print_def Let_def
        split: sum.split prod.split)+

lemma process_ml_preserves:
  fixes obs :: "('m, 'f) ml_state \<Rightarrow> 'a"
  assumes drift: "\<And>t. obs (fst (detect_drift lib records t)) = obs t"
    and items: "\<And>items t. obs (fst (append_items items t)) = obs t"
    and train: "\<And>t. obs (fst (train_and_save lib records t)) = obs t"
  shows "obs (fst (process_ml lib records t)) = obs (fst (detect_feature_changes lib records t))"
proof -
  obtain t1 r1 where d1: "detect_feature_changes lib records t = (t1, r1)"
    by (cases "detect_feature_changes lib records t")
  obtain t2 r2 where d2: "detect_drift lib records t1 = (t2, r2)"
    by (cases "detect_drift lib records t1")
  have f2: "obs t2 = obs t1"
    using drift [of t1] by (simp add: d2)
  have "obs (fst (process_ml lib records t)) = obs t1"
  proof (cases r1)
    case (Some e)
    then show ?thesis by (simp add: process_ml_def d1)
  next
    case None
    show ?thesis
    proof (cases r2)
      case (Some e)
      then show ?thesis by (simp add: process_ml_def d1 d2 None f2)
    next
      case n2: None
      show ?thesis
      proof (cases "py_iter records")
        case (Inl e)
        then show ?thesis by (simp add: process_ml_def d1 d2 None n2 f2)
      next
        case (Inr items')
        obtain t3 r3 where d3: "append_items items' t2 = (t3, r3)"
          by (cases "append_items items' t2")
        have f3: "obs t3 = obs t2"
          using items [of items' t2] by (simp add: d3)
        show ?thesis
          by (cases r3) (simp_all add: process_ml_def d1 d2 None n2 Inr d3 f2 f3 train)
      qed
    qed
  qed
  then show ?thesis by (simp add: d1)
qed

lemma process_ml_frame:
  "previous_features (fst (process_ml lib records t)) =
     previous_features (fst (detect_feature_changes lib records t))"
  "feature_added (fst (process_ml lib records t)) =
     feature_added (fst (detect_feature_changes lib records t))"
  "feature_removed (fst (process_ml lib records t)) =
     feature_removed (fst (detect_feature_changes lib records t))"
  by (rule process_ml_preserves;
      simp add: detect_drift_frame append_items_frame train_and_save_frame)+

subsection \<open>The schema change detector\<close>

lemma cycle_ml_list:
  assumes "reply inp = Response st (Some (JArr rs))" and "st \<noteq> 503" and "rs \<noteq> []"
  shows "cycle_ml lib inp t =
           process_ml lib (JArr rs)
             (t\<lparr>response_delay_seconds := delay inp,
                records_processed_total := records_processed_total t + length rs\<rparr>)"
  by (simp add: cycle_ml_def fetch_records_list [OF assms(1,2)] assms(3))

lemma uniform_nonempty: "uniform_batch w rs \<Longrightarrow> rs \<noteq> []"
  by (simp add: uniform_batch_def)

text \<open>
  C5. For every non-empty batch of uniform feature width that arrives in a response
  other than a 503, the stored baseline after the cycle is the batch's own identity,
  taken from its first record, whatever the baseline was before and whatever was
  signalled: the feature count in \<^verbatim>\<open>main.py\<close>, the set of the first record's
  feature values in \<^verbatim>\<open>ml_model.py\<close> (also when a later step of the cycle raises).
\<close>

theorem baseline_follows_batch:
  assumes "uniform_batch w rs" and "reply inp = Response st (Some (JArr rs))" and "st \<noteq> 503"
  shows "w = length (features_of (hd rs))
         \<and> previous_features_count (cycle_main lib inp s) = w
         \<and> previous_features (fst (cycle_ml lib inp t)) = set (features_of (hd rs))"
proof -
  have "w = length (features_of (hd rs))"
    using is_record_getitem(5) [OF hd_uniform [OF assms(1)]] by simp
  moreover have "previous_features_count (fst (try_body_main lib inp s)) = w"
    using assms(2,3)
    by (simp add: try_body_main_def process_main_uniform [OF assms(1)] retrain_main_frame
        feature_change_main_def)
  moreover have "previous_features (fst (cycle_ml lib inp t)) = set (features_of (hd rs))"
    by (simp add: cycle_ml_list [OF assms(2,3) uniform_nonempty [OF assms(1)]]
        process_ml_frame detect_feature_changes_uniform(2) [OF assms(1)])
  ultimately show ?thesis
    by (simp add: cycle_main_fields)
qed

lemma sample_batch: "uniform_batch 2 [rec_of [1, 2] 0, rec_of [1.5, 2.5] 1]"
  by (simp add: uniform_batch_def is_record_def rec_of_def is_number_def)

theorem baseline_follows_batch_witness:
  "previous_features_count
     (cycle_main sample_lib (poll (JArr [rec_of [1, 2] 0, rec_of [1.5, 2.5] 1]))
        (main0\<lparr>previous_features_count := 5\<rparr>)) = 2
   \<and> previous_features
     (fst (cycle_ml sample_lib (poll (JArr [rec_of [1, 2] 0, rec_of [1.5, 2.5] 1]))
        (ml0\<lparr>previous_features := {JNum 9}\<rparr>))) = {JNum 1, JNum 2}"
  using baseline_follows_batch [OF sample_batch, of "poll (JArr [rec_of [1, 2] 0, rec_of [1.5, 2.5] 1])"
      200 sample_lib "main0\<lparr>previous_features_count := 5\<rparr>" "ml0\<lparr>previous_features := {JNum 9}\<rparr>"]
  by (simp add: poll_def features_of_def rec_of_def)

lemma try_body_main_uniform:
  assumes "uniform_batch w rs" and "reply inp = Response st (Some (JArr rs))" and "st \<noteq> 503"
  shows "try_body_main lib inp s =
           retrain_main lib
             (feature_change_main lib w
                (s\<lparr>response_delay_seconds := delay inp,
                   records_processed_total := records_processed_total s + length rs,
                   X_history := X_history s @ map (\<lambda>r. JArr (features_of r)) rs,
                   y_history := y_history s @ map label_of rs\<rparr>))"
  using assms(2,3) by (simp add: try_body_main_def process_main_uniform [OF assms(1)])

lemma cycle_main_added:
  assumes "uniform_batch w rs" and "reply inp = Response st (Some (JArr rs))" and "st \<noteq> 503"
  shows "feature_added (cycle_main lib inp s) =
           (if previous_features_count s \<noteq> 0 \<and> previous_features_count s < w then 1
            else feature_added s)"
    and "count_list (alerts (cycle_main lib inp s)) ''Feature Added detected'' =
           count_list (alerts s) ''Feature Added detected'' +
           (if previous_features_count s \<noteq> 0 \<and> previous_features_count s < w then 1 else 0)"
  by (simp_all add: cycle_main_fields try_body_main_uniform [OF assms] retrain_main_frame
      feature_change_main_def send_slack_alert_def)

lemma added_alert_frames:
  "filter added_alert (alerts (fst (detect_drift lib records t))) = filter added_alert (alerts t)"
  "filter added_alert (alerts (fst (train_model lib t))) = filter added_alert (alerts t)"
  by (simp_all add: detect_drift_def train_model_def model_fit_def send_alert_def Let_def
      added_alert_def split: sum.split prod.split option.split)

lemma added_alert_append_items:
  "alerts (fst (append_items items t)) = alerts t"
  by (induction items arbitrary: t) (simp_all split: sum.split)

lemma added_alert_train_and_save:
  "filter added_alert (alerts (fst (train_and_save lib records t))) = filter added_alert (alerts t)"
  using added_alert_frames(2) [of lib t]
  by (cases "train_model lib t")
     (simp add: train_and_save_def save_and_count_def py_print_def Let_def
        split: sum.split prod.split)

lemma process_ml_added_alerts:
  "filter added_alert (alerts (fst (process_ml lib records t))) =
     filter added_alert (alerts (fst (detect_feature_changes lib records t)))"
  by (rule process_ml_preserves [where obs = "\<lambda>t. filter added_alert (alerts t)"])
     (simp_all add: added_alert_frames added_alert_append_items added_alert_train_and_save)

lemma cycle_ml_added:
  assumes "uniform_batch w rs" and "reply inp = Response st (Some (JArr rs))" and "st \<noteq> 503"
  shows "feature_added (fst (cycle_ml lib inp t)) =
           feature_added t + card (set (features_of (hd rs)) - previous_features t)"
    and "length (filter added_alert (alerts (fst (cycle_ml lib inp t)))) =
           length (filter added_alert (alerts t)) +
           (if set (features_of (hd rs)) - previous_features t \<noteq> {} then 1 else 0)"
  by (simp_all add: cycle_ml_list [OF assms(2,3) uniform_nonempty [OF assms(1)]]
      process_ml_frame process_ml_added_alerts detect_feature_changes_uniform [OF assms(1)]
      added_alert_def)

lemma cycle_ml_baseline:
  assumes "uniform_batch w rs" and "reply inp = Response st (Some (JArr rs))" and "st \<noteq> 503"
  shows "previous_features (fst (cycle_ml lib inp t)) = set (features_of (hd rs))"
  by (simp add: cycle_ml_list [OF assms(2,3) uniform_nonempty [OF assms(1)]]
      process_ml_frame detect_feature_changes_uniform(2) [OF assms(1)])

lemma single_record_batch: "uniform_batch (length fs) [rec_of fs l]"
  by (simp add: uniform_batch_def is_record_def rec_of_def is_number_def list_all_iff)

lemma features_of_rec_of: "features_of (rec_of fs l) = map JNum fs"
  by (simp add: features_of_def rec_of_def)

lemma poll_reply: "reply (poll b) = Response 200 (Some b)"
  by (simp add: poll_def)

text \<open>
  C6, as the code has it. For a uniform batch of width \<open>w\<close> arriving in a response
  other than a 503: \<^verbatim>\<open>main.py\<close> sets the feature-added gauge to 1 and raises the
  alert exactly once when the stored count is not 0 and \<open>w\<close> exceeds it, and does
  neither otherwise (a stored count of 0 means no baseline yet). \<^verbatim>\<open>ml_model.py\<close>
  compares sets of feature values, not widths: it adds to the gauge the number of
  values of the first record that the stored set lacks and raises one alert exactly
  when there is such a value.
\<close>

theorem added_signal:
  assumes "uniform_batch w rs" and "reply inp = Response st (Some (JArr rs))" and "st \<noteq> 503"
  shows "feature_added (cycle_main lib inp s) =
           (if previous_features_count s \<noteq> 0 \<and> previous_features_count s < w then 1
            else feature_added s)
         \<and> count_list (alerts (cycle_main lib inp s)) ''Feature Added detected'' =
           count_list (alerts s) ''Feature Added detected'' +
           (if previous_features_count s \<noteq> 0 \<and> previous_features_count s < w then 1 else 0)
         \<and> feature_added (fst (cycle_ml lib inp t)) =
           feature_added t + card (set (features_of (hd rs)) - previous_features t)
         \<and> length (filter added_alert (alerts (fst (cycle_ml lib inp t)))) =
           length (filter added_alert (alerts t)) +
           (if set (features_of (hd rs)) - previous_features t \<noteq> {} then 1 else 0)"
  using cycle_main_added [OF assms, where lib = lib and s = s]
    cycle_ml_added [OF assms, where lib = lib and t = t]
  by simp

theorem added_signal_witness:
  "feature_added
     (cycle_main sample_lib (poll (JArr [rec_of [1, 2] 0]))
        (main0\<lparr>previous_features_count := 1\<rparr>)) = 1
   \<and> count_list (alerts
     (cycle_main sample_lib (poll (JArr [rec_of [1, 2] 0]))
        (main0\<lparr>previous_features_count := 1\<rparr>))) ''Feature Added detected'' = 1
   \<and> feature_added
     (fst (cycle_ml sample_lib (poll (JArr [rec_of [1, 2] 0]))
        (ml0\<lparr>previous_features := {JNum 1}\<rparr>))) = 1
   \<and> length (filter added_alert (alerts
     (fst (cycle_ml sample_lib (poll (JArr [rec_of [1, 2] 0]))
        (ml0\<lparr>previous_features := {JNum 1}\<rparr>))))) = 1"
  using added_signal [OF single_record_batch [of "[1, 2]" 0] poll_reply,
      where lib = sample_lib and s = "main0\<lparr>previous_features_count := 1\<rparr>"
        and t = "ml0\<lparr>previous_features := {JNum 1}\<rparr>"]
  by (simp add: features_of_rec_of main0_def ml0_def)

text \<open>
  The claim as written (the signal fires exactly on a growth of the width) fails. In
  \<^verbatim>\<open>ml_model.py\<close> a batch with features \<open>[3, 4]\<close> after one with \<open>[1, 2]\<close> has the same
  width and raises the gauge from 2 to 4, while \<open>[1, 1]\<close> after \<open>[1]\<close> is wider and
  leaves it at 1. In \<^verbatim>\<open>main.py\<close> a batch of width 2 after one of width 0 is not
  signalled.
\<close>

theorem added_signal_not_by_width:
  "feature_added (fst (cycle_ml sample_lib (poll (JArr [rec_of [1, 2] 0])) ml0)) = 2
   \<and> feature_added
       (fst (cycle_ml sample_lib (poll (JArr [rec_of [3, 4] 0]))
          (fst (cycle_ml sample_lib (poll (JArr [rec_of [1, 2] 0])) ml0)))) = 4
   \<and> feature_added (fst (cycle_ml sample_lib (poll (JArr [rec_of [1] 0])) ml0)) = 1
   \<and> feature_added
       (fst (cycle_ml sample_lib (poll (JArr [rec_of [1, 1] 0]))
          (fst (cycle_ml sample_lib (poll (JArr [rec_of [1] 0])) ml0)))) = 1
   \<and> feature_added
       (cycle_main sample_lib (poll (JArr [rec_of [1, 2] 0]))
          (cycle_main sample_lib (poll (JArr [rec_of [] 0])) main0)) = 0"
proof -
  let ?p = "\<lambda>fs. poll (JArr [rec_of fs 0])"
  have a1: "feature_added (fst (cycle_ml sample_lib (?p fs) ml0)) = card (set (map JNum fs))" for fs
    using cycle_ml_added(1) [OF single_record_batch [of fs 0] poll_reply,
        where lib = sample_lib and t = ml0]
    by (simp add: features_of_rec_of ml0_def)
  have b1: "previous_features (fst (cycle_ml sample_lib (?p fs) ml0)) = set (map JNum fs)" for fs
    using cycle_ml_baseline [OF single_record_batch [of fs 0] poll_reply,
        where lib = sample_lib and t = ml0]
    by (simp add: features_of_rec_of)
  have a2: "feature_added (fst (cycle_ml sample_lib (?p gs) (fst (cycle_ml sample_lib (?p fs) ml0))))
      = card (set (map JNum fs)) + card (set (map JNum gs) - set (map JNum fs))" for fs gs
    using cycle_ml_added(1) [OF single_record_batch [of gs 0] poll_reply,
        where lib = sample_lib and t = "fst (cycle_ml sample_lib (?p fs) ml0)"]
    by (simp add: features_of_rec_of a1 b1)
  have m1: "previous_features_count (cycle_main sample_lib (?p []) main0) = 0
      \<and> feature_added (cycle_main sample_lib (?p []) main0) = 0"
    using cycle_main_added(1) [OF single_record_batch [of "[]" 0] poll_reply,
        where lib = sample_lib and s = main0]
    by (simp add: cycle_main_fields
        try_body_main_uniform [OF single_record_batch [of "[]" 0] poll_reply] retrain_main_frame
        feature_change_main_def main0_def)
  have m2: "feature_added (cycle_main sample_lib (?p [1, 2]) (cycle_main sample_lib (?p []) main0)) = 0"
    using cycle_main_added(1) [OF single_record_batch [of "[1, 2]" 0] poll_reply,
        where lib = sample_lib and s = "cycle_main sample_lib (?p []) main0"]
    by (simp add: m1)
  show ?thesis
    using a1 [of "[1, 2]"] a1 [of "[1]"] a2 [of "[3, 4]" "[1, 2]"] a2 [of "[1, 1]" "[1]"] m2
    by simp
qed

subsection \<open>The feature gauges only grow\<close>

lemma append_history_gauges:
  "feature_added (fst (append_history rs s)) = feature_added s
   \<and> feature_removed (fst (append_history rs s)) = feature_removed s"
  by (induction rs arbitrary: s) (simp_all add: Let_def split: sum.split)

lemma feature_change_main_latch:
  assumes "feature_added s \<le> 1" and "feature_removed s \<le> 1"
  shows "feature_added s \<le> feature_added (feature_change_main lib cur s)"
    and "feature_added (feature_change_main lib cur s) \<le> 1"
    and "feature_removed s \<le> feature_removed (feature_change_main lib cur s)"
    and "feature_removed (feature_change_main lib cur s) \<le> 1"
  using assms by (simp_all add: feature_change_main_def send_slack_alert_def)

lemma process_main_latch:
  assumes "feature_added s \<le> 1" and "feature_removed s \<le> 1"
  shows "feature_added s \<le> feature_added (fst (process_main lib body s))
         \<and> feature_added (fst (process_main lib body s)) \<le> 1
         \<and> feature_removed s \<le> feature_removed (fst (process_main lib body s))
         \<and> feature_removed (fst (process_main lib body s)) \<le> 1"
proof (cases body)
  case None
  with assms show ?thesis by (simp add: process_main_def)
next
  case (Some records)
  show ?thesis
  proof (cases "truthy records")
    case False
    with Some assms show ?thesis by (simp add: process_main_def)
  next
    case True
    show ?thesis
    proof (cases "py_len records")
      case (Inl e)
      with Some True assms show ?thesis by (simp add: process_main_def)
    next
      case (Inr n)
      define s1 where "s1 = s\<lparr>records_processed_total := records_processed_total s + n\<rparr>"
      have g1: "feature_added s1 = feature_added s" "feature_removed s1 = feature_removed s"
        by (simp_all add: s1_def)
      show ?thesis
      proof (cases "py_iter records")
        case (Inl e)
        with Some True Inr assms show ?thesis by (simp add: process_main_def)
      next
        case rs: (Inr rs)
        obtain s2 r2 where a: "append_history rs s1 = (s2, r2)"
          by (cases "append_history rs s1")
        have g2: "feature_added s2 = feature_added s" "feature_removed s2 = feature_removed s"
          using append_history_gauges [of rs s1] by (simp_all add: a g1)
        show ?thesis
        proof (cases r2)
          case (Some e)
          with \<open>body = Some records\<close> True Inr rs a g2 assms show ?thesis
            by (simp add: process_main_def s1_def)
        next
          case None
          show ?thesis
          proof (cases "current_feat_count records")
            case (Inl e)
            with \<open>body = Some records\<close> True Inr rs a g2 None assms show ?thesis
              by (simp add: process_main_def s1_def)
          next
            case cur: (Inr cur)
            have l: "feature_added s2 \<le> 1" "feature_removed s2 \<le> 1"
              using assms g2 by simp_all
            note f = feature_change_main_latch [OF l, where lib = lib and cur = cur]
            from \<open>body = Some records\<close> True Inr rs a None cur
            have "process_main lib body s = retrain_main lib (feature_change_main lib cur s2)"
              by (simp add: process_main_def s1_def)
            with f g2 show ?thesis by (simp add: retrain_main_frame)
          qed
        qed
      qed
    qed
  qed
qed

lemma cycle_main_latch:
  assumes "feature_added s \<le> 1" and "feature_removed s \<le> 1"
  shows "feature_added s \<le> feature_added (cycle_main lib inp s)
         \<and> feature_added (cycle_main lib inp s) \<le> 1
         \<and> feature_removed s \<le> feature_removed (cycle_main lib inp s)
         \<and> feature_removed (cycle_main lib inp s) \<le> 1"
proof (cases "reply inp")
  case (ConnFail e)
  with assms show ?thesis by (simp add: cycle_main_fields try_body_main_def)
next
  case (Response st body)
  show ?thesis
  proof (cases "st = 503")
    case True
    with Response assms show ?thesis
      by (simp add: cycle_main_fields try_body_main_def send_slack_alert_def)
  next
    case False
    define s1 where "s1 = s\<lparr>response_delay_seconds := delay inp\<rparr>"
    have "feature_added s1 \<le> 1" "feature_removed s1 \<le> 1"
      using assms by (simp_all add: s1_def)
    from process_main_latch [OF this, of lib body] Response False show ?thesis
      by (simp add: cycle_main_fields try_body_main_def s1_def)
  qed
qed

lemma main_loop_latch:
  "feature_added s \<le> 1 \<Longrightarrow> feature_removed s \<le> 1 \<Longrightarrow>
   \<exists>s'. ingestion_and_retrain_loop lib inps s = Running s'
        \<and> feature_added s \<le> feature_added s' \<and> feature_added s' \<le> 1
        \<and> feature_removed s \<le> feature_removed s' \<and> feature_removed s' \<le> 1"
proof (induction inps arbitrary: s)
  case Nil
  then show ?case by simp
next
  case (Cons inp inps)
  note c = cycle_main_latch [OF Cons.prems, of lib inp]
  from c have "feature_added (cycle_main lib inp s) \<le> 1" "feature_removed (cycle_main lib inp s) \<le> 1"
    by simp_all
  from Cons.IH [OF this] c show ?case
    by (auto intro: order_trans)
qed

lemma fetch_records_gauges:
  "feature_added (fst (fetch_records lib inp t)) = feature_added t"
  "feature_removed (fst (fetch_records lib inp t)) = feature_removed t"
  by (simp_all add: fetch_records_def fetch_try_def send_alert_def py_print_def Let_def
      split: reply.split option.split sum.split prod.split)

lemma detect_feature_changes_grows:
  "feature_added t \<le> feature_added (fst (detect_feature_changes lib records t))"
  "feature_removed t \<le> feature_removed (fst (detect_feature_changes lib records t))"
  by (simp_all add: detect_feature_changes_def send_alert_def Let_def
      split: sum.split)

lemma cycle_ml_grows:
  "feature_added t \<le> feature_added (fst (cycle_ml lib inp t))
   \<and> feature_removed t \<le> feature_removed (fst (cycle_ml lib inp t))"
proof -
  obtain t1 r where f: "fetch_records lib inp t = (t1, r)"
    by (cases "fetch_records lib inp t")
  have g: "feature_added t1 = feature_added t" "feature_removed t1 = feature_removed t"
    using fetch_records_gauges [of lib inp t] by (simp_all add: f)
  show ?thesis
  proof (cases r)
    case None
    with f g show ?thesis by (simp add: cycle_ml_def)
  next
    case (Some records)
    show ?thesis
    proof (cases "truthy records")
      case False
      with Some f g show ?thesis by (simp add: cycle_ml_def)
    next
      case True
      with Some f have "cycle_ml lib inp t = process_ml lib records t1"
        by (simp add: cycle_ml_def)
      with detect_feature_changes_grows [of t1 lib records] g show ?thesis
        by (simp add: process_ml_frame)
    qed
  qed
qed

lemma ml_loop_grows:
  "feature_added t \<le> feature_added (outcome_state (ingestion_loop lib inps t))
   \<and> feature_removed t \<le> feature_removed (outcome_state (ingestion_loop lib inps t))"
proof (induction inps arbitrary: t)
  case Nil
  show ?case by (simp add: final_save_def py_print_def)
next
  case (Cons inp inps)
  show ?case
  proof (cases "current_cycle t < TRAIN_CYCLES")
    case False
    then show ?thesis by (simp add: final_save_def py_print_def)
  next
    case True
    obtain t1 r where c: "cycle_ml lib inp t = (t1, r)"
      by (cases "cycle_ml lib inp t")
    have g: "feature_added t \<le> feature_added t1" "feature_removed t \<le> feature_removed t1"
      using cycle_ml_grows [of t lib inp] by (simp_all add: c)
    show ?thesis
    proof (cases r)
      case (Some e)
      with True c g show ?thesis by simp
    next
      case None
      with True c have "ingestion_loop lib (inp # inps) t = ingestion_loop lib inps t1"
        by simp
      with Cons.IH [of t1] g show ?thesis
        by (auto intro: order_trans)
    qed
  qed
qed

lemma detect_drift_gauge:
  "snd (detect_drift lib records t) = None \<Longrightarrow>
   distribution_drift_detected (fst (detect_drift lib records t)) \<le> 1"
  by (auto simp: detect_drift_def send_alert_def Let_def
      split: sum.splits prod.splits option.splits if_splits)

text \<open>
  C10. Neither feature gauge ever goes down. In \<^verbatim>\<open>main.py\<close> both gauges start at 0
  and are only ever set to 1, so from any state where they are at most 1 they stay at
  or above their value over any run of polls, and the loop is still running. In
  \<^verbatim>\<open>ml_model.py\<close> both gauges are only ever incremented, so they stay at or above their
  value however the loop ends. The drift gauge does not latch: every call of
  \<^verbatim>\<open>detect_drift\<close> that completes writes 0 or 1 over whatever it held.
\<close>

theorem feature_gauges_latch:
  "(feature_added s \<le> 1 \<and> feature_removed s \<le> 1 \<longrightarrow>
      (\<exists>s'. ingestion_and_retrain_loop lib inps s = Running s'
         \<and> feature_added s \<le> feature_added s' \<and> feature_added s' \<le> 1
         \<and> feature_removed s \<le> feature_removed s' \<and> feature_removed s' \<le> 1))
   \<and> feature_added t \<le> feature_added (outcome_state (ingestion_loop lib inps t))
   \<and> feature_removed t \<le> feature_removed (outcome_state (ingestion_loop lib inps t))
   \<and> (snd (detect_drift lib records u) = None \<longrightarrow>
        distribution_drift_detected (fst (detect_drift lib records u)) \<le> 1)"
  using main_loop_latch [of s lib inps] ml_loop_grows [of t lib inps]
    detect_drift_gauge [of lib records u]
  by blast

lemma drift_gauge_example:
  "detect_drift sample_lib (JArr [rec_of [1] 0]) (ml0\<lparr>distribution_drift_detected := 7\<rparr>) =
     (ml0\<lparr>distribution_drift_detected := 0, feature_stats := [0 \<mapsto> (1, 0)]\<rparr>, None)"
  by (simp add: detect_drift_def first_features_def rec_of_def column_stat_def
      feature_column_def sample_lib_def sample_mean_def mean_of_def ml0_def)

theorem feature_gauges_latch_witness:
  "feature_added
     (outcome_state
        (ingestion_and_retrain_loop sample_lib
           [poll (JArr [rec_of [1] 0]), \<lparr>delay = 1, reply = Response 503 None\<rparr>]
           (main0\<lparr>feature_added := 1\<rparr>))) = 1
   \<and> 3 \<le> feature_added
     (outcome_state
        (ingestion_loop sample_lib
           [poll (JArr [rec_of [1] 0]), \<lparr>delay = 1, reply = Response 503 None\<rparr>]
           (ml0\<lparr>feature_added := 3\<rparr>)))
   \<and> distribution_drift_detected
        (fst (detect_drift sample_lib (JArr [rec_of [1] 0]) (ml0\<lparr>distribution_drift_detected := 7\<rparr>))) \<le> 1"
  using feature_gauges_latch [of "main0\<lparr>feature_added := 1\<rparr>" sample_lib
      "[poll (JArr [rec_of [1] 0]), \<lparr>delay = 1, reply = Response 503 None\<rparr>]"
      "ml0\<lparr>feature_added := 3\<rparr>"
      "JArr [rec_of [1] 0]" "ml0\<lparr>distribution_drift_detected := 7\<rparr>"]
    drift_gauge_example
  by (auto simp: main0_def ml0_def)

subsection \<open>The retrain controller\<close>

lemma retrain_main_skips:
  "length (X_history s) \<le> 20 \<Longrightarrow> retrain_main lib s = (s, None)"
  by (simp add: retrain_main_def)

lemma train_model_skips:
  "length (ml_X t) < MIN_SAMPLES_TO_TRAIN \<Longrightarrow> train_model lib t = (t, Inr 0)"
  by (simp add: train_model_def)

lemma retrain_main_fits:
  assumes "length (X_history s) > 20"
    and "train_test_split lib (X_history s) (y_history s) 0.2 None = Inr (Xtr, Xte, ytr, yte)"
  shows "take (Suc (length (fit_log s))) (fit_log (fst (retrain_main lib s))) =
           fit_log s @ [(Xtr, ytr)]"
  using assms
  by (simp add: retrain_main_def model_fit_def send_slack_alert_def Let_def
      split: sum.split prod.split option.split)

lemma train_model_fits:
  assumes "length (ml_X t) \<ge> MIN_SAMPLES_TO_TRAIN"
    and "np_array lib (ml_X t) = Inr Xa" and "np_array lib (ml_y t) = Inr ya"
    and "train_test_split lib Xa ya 0.3 (Some 42) = Inr (Xtr, Xte, ytr, yte)"
  shows "take (Suc (length (fit_log t))) (fit_log (fst (train_model lib t))) =
           fit_log t @ [(Xtr, ytr)]"
  using assms
  by (simp add: train_model_def model_fit_def send_alert_def Let_def
      split: sum.split prod.split option.split)

lemma retrain_main_below:
  assumes "length (X_history s) > 20"
    and "train_test_split lib (X_history s) (y_history s) 0.2 None = Inr (Xtr, Xte, ytr, yte)"
    and "sk_fit lib (model s) Xtr ytr = (m1, None)"
    and "sk_predict lib m1 Xte = Inr preds"
    and "accuracy_score lib yte preds = Inr acc"
    and "acc < RETRAIN_THRESHOLD"
  shows "retrain_main lib s =
           (s\<lparr>model := fst (sk_fit lib m1 (X_history s) (y_history s)),
              fit_log := fit_log s @ [(Xtr, ytr), (X_history s, y_history s)],
              model_accuracy := acc,
              retrain_count_total := retrain_count_total s + 1,
              alerts := alerts s @
                [''Accuracy '' @ format_2f lib acc @ '' < 0.8. Retraining triggered.''],
              printed := printed s @
                slack_lines lib
                  (''Accuracy '' @ format_2f lib acc @ '' < 0.8. Retraining triggered.'')\<rparr>,
            snd (sk_fit lib m1 (X_history s) (y_history s)))"
  using assms
  by (simp add: retrain_main_def model_fit_def send_slack_alert_def Let_def)

lemma train_model_below:
  assumes "length (ml_X t) \<ge> MIN_SAMPLES_TO_TRAIN"
    and "np_array lib (ml_X t) = Inr Xa" and "np_array lib (ml_y t) = Inr ya"
    and "train_test_split lib Xa ya 0.3 (Some 42) = Inr (Xtr, Xte, ytr, yte)"
    and "sk_fit lib (model t) Xtr ytr = (m1, None)"
    and "sk_predict lib m1 Xte = Inr preds"
    and "accuracy_score lib yte preds = Inr acc"
    and "acc < RETRAIN_THRESHOLD"
  shows "train_model lib t =
           (t\<lparr>model := m1,
              fit_log := fit_log t @ [(Xtr, ytr)],
              model_accuracy := acc,
              retrain_count_total := retrain_count t,
              alerts := alerts t @
                [''Accuracy dropped below '' @ format_2f lib RETRAIN_THRESHOLD @
                 '': retraining needed''],
              printed := printed t @
                [''ALERT: Accuracy dropped below '' @ format_2f lib RETRAIN_THRESHOLD @
                 '': retraining needed''],
              retrain_count := retrain_count t + 1\<rparr>,
            Inr acc)"
  using assms
  by (simp add: train_model_def model_fit_def send_alert_def Let_def)

lemma sample_format_threshold: "sample_format_2f RETRAIN_THRESHOLD = ''0.80''"
  by (simp add: sample_format_2f_def RETRAIN_THRESHOLD_def str_nat.simps Let_def)

lemma sample_format_zero: "sample_format_2f 0 = ''0.00''"
  by (simp add: sample_format_2f_def str_nat.simps Let_def)

lemma sample_split_23:
  "sample_split (replicate 23 row) (replicate 18 (JNum 0) @ replicate 5 (JNum 1)) 0.2 None =
     Inr (replicate 18 row, replicate 5 row, replicate 18 (JNum 0), replicate 5 (JNum 1))"
  by (simp add: sample_split_def Let_def)

lemma sample_split_4:
  "sample_split [row, row, row, row] [JNum 0, JNum 0, JNum 1, JNum 1] 0.3 (Some 42) =
     Inr ([row, row], [row, row], [JNum 0, JNum 0], [JNum 1, JNum 1])"
  by (simp add: sample_split_def Let_def)

lemma sample_predict_18:
  "sample_predict (replicate 18 row, replicate 18 (JNum 0)) (replicate 5 row) =
     Inr (replicate 5 (JNum 0))"
  by (simp add: sample_predict_def eval_nat_numeral list_all_iff)

lemma sample_accuracy_5:
  "sample_accuracy (replicate 5 (JNum 1)) (replicate 5 (JNum 0)) = Inr 0"
  by (simp add: sample_accuracy_def eval_nat_numeral)

lemma sample_predict_2:
  "sample_predict ([row, row], [JNum 0, JNum 0]) [row, row] = Inr [JNum 0, JNum 0]"
  by (simp add: sample_predict_def)

lemma sample_accuracy_2:
  "sample_accuracy [JNum 1, JNum 1] [JNum 0, JNum 0] = Inr 0"
  by (simp add: sample_accuracy_def)

text \<open>
  C3, as the code has it. \<^verbatim>\<open>main.py\<close> retrains only when the history holds more than
  20 samples: at 20 or fewer the controller leaves the whole state as it is (no fit,
  no accuracy gauge), so a cycle at 18 skips and one that reaches 23 fits; above 20,
  once the split succeeds, the next call of \<^verbatim>\<open>model.fit\<close> is on the train part.
  \<^verbatim>\<open>ml_model.py\<close> has the floor \<^verbatim>\<open>MIN_SAMPLES_TO_TRAIN = 4\<close>: below it the state is
  unchanged and 0.0 is returned, from it on the train part is fitted.
\<close>

theorem retrain_floor:
  "(length (X_history s) \<le> 20 \<longrightarrow> retrain_main lib s = (s, None))
   \<and> (length (X_history s) > 20 \<and>
        train_test_split lib (X_history s) (y_history s) 0.2 None = Inr (Xtr, Xte, ytr, yte) \<longrightarrow>
        take (Suc (length (fit_log s))) (fit_log (fst (retrain_main lib s))) =
          fit_log s @ [(Xtr, ytr)])
   \<and> (length (ml_X t) < MIN_SAMPLES_TO_TRAIN \<longrightarrow> train_model lib t = (t, Inr 0))
   \<and> (length (ml_X t) \<ge> MIN_SAMPLES_TO_TRAIN \<and>
        np_array lib (ml_X t) = Inr Xa \<and> np_array lib (ml_y t) = Inr ya \<and>
        train_test_split lib Xa ya 0.3 (Some 42) = Inr (Xtr', Xte', ytr', yte') \<longrightarrow>
        take (Suc (length (fit_log t))) (fit_log (fst (train_model lib t))) =
          fit_log t @ [(Xtr', ytr')])"
  using retrain_main_skips [of s lib] retrain_main_fits [of s lib Xtr Xte ytr yte]
    train_model_skips [of t lib] train_model_fits [of t lib Xa ya Xtr' Xte' ytr' yte']
  by blast

theorem retrain_floor_witness:
  "retrain_main sample_lib (main_with (replicate 18 row) (replicate 18 (JNum 0))) =
     (main_with (replicate 18 row) (replicate 18 (JNum 0)), None)
   \<and> take 1 (fit_log (fst (retrain_main sample_lib
        (main_with (replicate 23 row) (replicate 18 (JNum 0) @ replicate 5 (JNum 1)))))) =
     [(replicate 18 row, replicate 18 (JNum 0))]
   \<and> train_model sample_lib (ml_with [row, row, row] [JNum 0, JNum 0, JNum 1]) =
     (ml_with [row, row, row] [JNum 0, JNum 0, JNum 1], Inr 0)
   \<and> take 1 (fit_log (fst (train_model sample_lib
        (ml_with [row, row, row, row] [JNum 0, JNum 0, JNum 1, JNum 1])))) =
     [([row, row], [JNum 0, JNum 0])]"
  using retrain_floor [of "main_with (replicate 18 row) (replicate 18 (JNum 0))" sample_lib
      "[]" "[]" "[]" "[]" "ml_with [row, row, row] [JNum 0, JNum 0, JNum 1]" "[]" "[]"
      "[]" "[]" "[]" "[]"]
    retrain_floor [of "main_with (replicate 23 row) (replicate 18 (JNum 0) @ replicate 5 (JNum 1))"
      sample_lib "replicate 18 row" "replicate 5 row" "replicate 18 (JNum 0)" "replicate 5 (JNum 1)"
      "ml_with [row, row, row, row] [JNum 0, JNum 0, JNum 1, JNum 1]"
      "[row, row, row, row]" "[JNum 0, JNum 0, JNum 1, JNum 1]"
      "[row, row]" "[row, row]" "[JNum 0, JNum 0]" "[JNum 1, JNum 1]"]
    sample_split_23 sample_split_4
  by (simp add: main_with_def ml_with_def main0_def ml0_def sample_lib_def MIN_SAMPLES_TO_TRAIN_def)

lemma two_rows: "uniform_batch 2 [rec_of [1, 2] 0, rec_of [1, 2] 0]"
  by (simp add: uniform_batch_def is_record_def rec_of_def is_number_def)

text \<open>
  The claim as written (a fit whenever the size has reached a floor of 20) fails in
  \<^verbatim>\<open>main.py\<close>: a batch of two records that brings a history of 18 to exactly 20 is
  followed by no fit.
\<close>

theorem no_fit_at_twenty:
  "length (X_history (cycle_main sample_lib (poll (JArr [rec_of [1, 2] 0, rec_of [1, 2] 0]))
      (main_with (replicate 18 row) (replicate 18 (JNum 0))))) = 20
   \<and> fit_log (cycle_main sample_lib (poll (JArr [rec_of [1, 2] 0, rec_of [1, 2] 0]))
      (main_with (replicate 18 row) (replicate 18 (JNum 0)))) = []
   \<and> model (cycle_main sample_lib (poll (JArr [rec_of [1, 2] 0, rec_of [1, 2] 0]))
      (main_with (replicate 18 row) (replicate 18 (JNum 0)))) = model main0"
proof -
  let ?s = "main_with (replicate 18 row) (replicate 18 (JNum 0))"
  let ?inp = "poll (JArr [rec_of [1, 2] 0, rec_of [1, 2] 0])"
  have "try_body_main sample_lib ?inp ?s =
      (feature_change_main sample_lib 2
         (?s\<lparr>response_delay_seconds := delay ?inp,
              records_processed_total := records_processed_total ?s + 2,
              X_history := X_history ?s @ map (\<lambda>r. JArr (features_of r))
                 [rec_of [1, 2] 0, rec_of [1, 2] 0],
              y_history := y_history ?s @ map label_of [rec_of [1, 2] 0, rec_of [1, 2] 0]\<rparr>),
       None)"
    by (simp add: try_body_main_uniform [OF two_rows poll_reply]
        retrain_main_skips feature_change_main_def main_with_def)
  then show ?thesis
    by (simp add: cycle_main_fields feature_change_main_def main_with_def main0_def)
qed

text \<open>
  C1, as the code has it. When the held-out accuracy is below 0.8 (the split, the
  first fit, the prediction and the scoring having succeeded), \<^verbatim>\<open>main.py\<close> adds one
  to the retrain counter, raises an alert that carries the accuracy, and calls
  \<^verbatim>\<open>model.fit\<close> a second time on the whole history: the object that call leaves is the
  live model. \<^verbatim>\<open>ml_model.py\<close> adds one to its retrain count and raises an alert that
  names the threshold; it fits nothing more, so the live model is the one fitted on the
  train part, and the exported retrain gauge shows the count before the increment.
\<close>

theorem retrain_below_threshold:
  "(length (X_history s) > 20 \<and>
    train_test_split lib (X_history s) (y_history s) 0.2 None = Inr (Xtr, Xte, ytr, yte) \<and>
    sk_fit lib (model s) Xtr ytr = (m1, None) \<and>
    sk_predict lib m1 Xte = Inr preds \<and>
    accuracy_score lib yte preds = Inr acc \<and>
    acc < RETRAIN_THRESHOLD \<longrightarrow>
    retrain_main lib s =
      (s\<lparr>model := fst (sk_fit lib m1 (X_history s) (y_history s)),
         fit_log := fit_log s @ [(Xtr, ytr), (X_history s, y_history s)],
         model_accuracy := acc,
         retrain_count_total := retrain_count_total s + 1,
         alerts := alerts s @
           [''Accuracy '' @ format_2f lib acc @ '' < 0.8. Retraining triggered.''],
         printed := printed s @
           slack_lines lib
             (''Accuracy '' @ format_2f lib acc @ '' < 0.8. Retraining triggered.'')\<rparr>,
       snd (sk_fit lib m1 (X_history s) (y_history s))))
   \<and> (length (ml_X t) \<ge> MIN_SAMPLES_TO_TRAIN \<and>
      np_array lib (ml_X t) = Inr Xa \<and> np_array lib (ml_y t) = Inr ya \<and>
      train_test_split lib Xa ya 0.3 (Some 42) = Inr (Xtr', Xte', ytr', yte') \<and>
      sk_fit lib (model t) Xtr' ytr' = (m1', None) \<and>
      sk_predict lib m1' Xte' = Inr preds' \<and>
      accuracy_score lib yte' preds' = Inr acc' \<and>
      acc' < RETRAIN_THRESHOLD \<longrightarrow>
      train_model lib t =
        (t\<lparr>model := m1',
           fit_log := fit_log t @ [(Xtr', ytr')],
           model_accuracy := acc',
           retrain_count_total := retrain_count t,
           alerts := alerts t @
             [''Accuracy dropped below '' @ format_2f lib RETRAIN_THRESHOLD @
              '': retraining needed''],
           printed := printed t @
             [''ALERT: Accuracy dropped below '' @ format_2f lib RETRAIN_THRESHOLD @
              '': retraining needed''],
           retrain_count := retrain_count t + 1\<rparr>,
         Inr acc'))"
  using retrain_main_below [of s lib Xtr Xte ytr yte m1 preds acc]
    train_model_below [of t lib Xa ya Xtr' Xte' ytr' yte' m1' preds' acc']
  by blast

lemma threshold_zero: "(0::real) < RETRAIN_THRESHOLD"
  by (simp add: RETRAIN_THRESHOLD_def)

theorem retrain_below_threshold_witness:
  "model (fst (retrain_main sample_lib
      (main_with (replicate 23 row) (replicate 18 (JNum 0) @ replicate 5 (JNum 1))))) =
     (replicate 23 row, replicate 18 (JNum 0) @ replicate 5 (JNum 1))
   \<and> retrain_count_total (fst (retrain_main sample_lib
      (main_with (replicate 23 row) (replicate 18 (JNum 0) @ replicate 5 (JNum 1))))) = 1
   \<and> alerts (fst (retrain_main sample_lib
      (main_with (replicate 23 row) (replicate 18 (JNum 0) @ replicate 5 (JNum 1))))) =
     [''Accuracy 0.00 < 0.8. Retraining triggered.'']
   \<and> model (fst (train_model sample_lib
      (ml_with [row, row, row, row] [JNum 0, JNum 0, JNum 1, JNum 1]))) =
     ([row, row], [JNum 0, JNum 0])
   \<and> retrain_count (fst (train_model sample_lib
      (ml_with [row, row, row, row] [JNum 0, JNum 0, JNum 1, JNum 1]))) = 1"
  using retrain_below_threshold
      [of "main_with (replicate 23 row) (replicate 18 (JNum 0) @ replicate 5 (JNum 1))"
        sample_lib "replicate 18 row" "replicate 5 row" "replicate 18 (JNum 0)"
        "replicate 5 (JNum 1)" "(replicate 18 row, replicate 18 (JNum 0))"
        "replicate 5 (JNum 0)" 0
        "ml_with [row, row, row, row] [JNum 0, JNum 0, JNum 1, JNum 1]"
        "[row, row, row, row]" "[JNum 0, JNum 0, JNum 1, JNum 1]"
        "[row, row]" "[row, row]" "[JNum 0, JNum 0]" "[JNum 1, JNum 1]"
        "([row, row], [JNum 0, JNum 0])" "[JNum 0, JNum 0]" 0]
    sample_split_23 sample_split_4 sample_predict_18 sample_predict_2
    sample_accuracy_5 sample_accuracy_2 threshold_zero sample_format_zero
  by (simp add: main_with_def ml_with_def main0_def ml0_def sample_lib_def MIN_SAMPLES_TO_TRAIN_def)

text \<open>
  The claim as written (a second fit on the whole history, an alert with the observed
  accuracy) fails in \<^verbatim>\<open>ml_model.py\<close>: with four samples and accuracy 0 the only fit is
  on the two training samples, and the alert names 0.80, the threshold.
\<close>

theorem no_full_refit_in_training_loop:
  "model (fst (train_model sample_lib
      (ml_with [row, row, row, row] [JNum 0, JNum 0, JNum 1, JNum 1]))) =
     ([row, row], [JNum 0, JNum 0])
   \<and> fit_log (fst (train_model sample_lib
      (ml_with [row, row, row, row] [JNum 0, JNum 0, JNum 1, JNum 1]))) =
     [([row, row], [JNum 0, JNum 0])]
   \<and> model_accuracy (fst (train_model sample_lib
      (ml_with [row, row, row, row] [JNum 0, JNum 0, JNum 1, JNum 1]))) = 0
   \<and> alerts (fst (train_model sample_lib
      (ml_with [row, row, row, row] [JNum 0, JNum 0, JNum 1, JNum 1]))) =
     [''Accuracy dropped below 0.80: retraining needed'']"
  using train_model_below
      [of "ml_with [row, row, row, row] [JNum 0, JNum 0, JNum 1, JNum 1]" sample_lib
        "[row, row, row, row]" "[JNum 0, JNum 0, JNum 1, JNum 1]"
        "[row, row]" "[row, row]" "[JNum 0, JNum 0]" "[JNum 1, JNum 1]"
        "([row, row], [JNum 0, JNum 0])" "[JNum 0, JNum 0]" 0]
    sample_split_4 sample_predict_2 sample_accuracy_2 threshold_zero sample_format_threshold
  by (simp add: ml_with_def ml0_def sample_lib_def MIN_SAMPLES_TO_TRAIN_def)

subsection \<open>What ends a loop\<close>

lemma main_loop_runs:
  "\<exists>s'. ingestion_and_retrain_loop lib inps s = Running s'"
  by (induction inps arbitrary: s) simp_all

lemma cycle_main_catches:
  "try_body_main lib inp s = (s', Some e) \<Longrightarrow>
   cycle_main lib inp s = s'\<lparr>printed := printed s' @ [''Loop Error: '' @ str_exn lib e]\<rparr>"
  by (simp add: cycle_main_def)

lemma fetch_failure_skips:
  "fetch_try inp t = (t', Inl e) \<Longrightarrow> snd (cycle_ml lib inp t) = None"
  by (simp add: cycle_ml_def fetch_records_def)

lemma ml_loop_crashes:
  "current_cycle t < TRAIN_CYCLES \<Longrightarrow> cycle_ml lib inp t = (t', Some e) \<Longrightarrow>
   ingestion_loop lib (inp # inps) t = Crashed e t'"
  by simp

lemma ml_loop_halts:
  "ingestion_loop lib inps t = Halted t' \<Longrightarrow> TRAIN_CYCLES \<le> current_cycle t'"
proof (induction inps arbitrary: t)
  case Nil
  then show ?case by (auto simp: final_save_def py_print_def split: if_splits)
next
  case (Cons inp inps)
  then show ?case
    by (auto simp: final_save_def py_print_def split: if_splits prod.splits option.splits)
qed

lemma ragged_detect_drift:
  "snd (detect_drift sample_lib (JArr [rec_of [1, 2] 0, rec_of [1] 0]) t) = Some IndexError"
  by (simp add: detect_drift_def first_features_def rec_of_def feature_column_def
      column_stat_def drifted_def py_max_def sample_lib_def
      sample_mean_def sample_stdev_def mean_of_def stdev_of_def upt_rec
      split: prod.split option.split)

lemma ragged_detect_features:
  "snd (detect_feature_changes lib (JArr [rec_of [1, 2] 0, rec_of [1] 0]) t) = None"
  by (simp add: detect_feature_changes_def first_features_def rec_of_def py_set_def Let_def)

lemma ragged_cycle:
  "snd (cycle_ml sample_lib (poll (JArr [rec_of [1, 2] 0, rec_of [1] 0])) t) = Some IndexError"
proof -
  let ?b = "JArr [rec_of [1, 2] 0, rec_of [1] 0]"
  obtain t0 where f: "fetch_records sample_lib (poll ?b) t = (t0, Some ?b)"
    by (simp add: fetch_records_list [OF poll_reply])
  obtain t1 where d1: "detect_feature_changes sample_lib ?b t0 = (t1, None)"
    using ragged_detect_features [of sample_lib t0]
    by (cases "detect_feature_changes sample_lib ?b t0") simp
  obtain t2 where d2: "detect_drift sample_lib ?b t1 = (t2, Some IndexError)"
    using ragged_detect_drift [of t1]
    by (cases "detect_drift sample_lib ?b t1") simp
  show ?thesis
    by (simp add: cycle_ml_def f process_ml_def d1 d2)
qed

text \<open>
  C4, as the code has it. In \<^verbatim>\<open>main.py\<close> every exception of the cycle body is caught
  and printed at the end of that cycle, and after any finite run of polls the loop is
  still running: it has no terminal condition. In \<^verbatim>\<open>ml_model.py\<close> only the fetch is
  guarded: an exception raised inside \<^verbatim>\<open>fetch_records\<close> skips the cycle, but one
  raised by the detectors, the history append or the training leaves the loop, which
  otherwise stops only once \<^verbatim>\<open>TRAIN_CYCLES\<close> cycles have been counted.
\<close>

theorem loop_end:
  "(\<exists>s'. ingestion_and_retrain_loop lib inps s = Running s')
   \<and> (try_body_main lib inp s = (s1, Some e) \<longrightarrow>
        cycle_main lib inp s = s1\<lparr>printed := printed s1 @ [''Loop Error: '' @ str_exn lib e]\<rparr>)
   \<and> (fetch_try inp t = (t1, Inl e1) \<longrightarrow> snd (cycle_ml lib inp t) = None)
   \<and> (current_cycle t < TRAIN_CYCLES \<and> cycle_ml lib inp t = (t2, Some e2) \<longrightarrow>
        ingestion_loop lib (inp # inps) t = Crashed e2 t2)
   \<and> (ingestion_loop lib inps t = Halted t3 \<longrightarrow> TRAIN_CYCLES \<le> current_cycle t3)"
  using main_loop_runs [of lib inps s] cycle_main_catches [of lib inp s s1 e]
    fetch_failure_skips [of inp t t1 e1 lib] ml_loop_crashes [of t lib inp t2 e2 inps]
    ml_loop_halts [of lib inps t t3]
  by blast

text \<open>
  The claim as written (no error of a cycle ends the loop) fails in \<^verbatim>\<open>ml_model.py\<close>: a
  batch whose second record is shorter than its first raises \<^verbatim>\<open>IndexError\<close> in
  \<^verbatim>\<open>detect_drift\<close>, and the loop ends there with the next poll unread.
\<close>

theorem training_loop_crashes:
  "ingestion_loop sample_lib
     [poll (JArr [rec_of [1, 2] 0, rec_of [1] 0]), poll (JArr [rec_of [1, 2] 0])] ml0 =
   Crashed IndexError
     (fst (cycle_ml sample_lib (poll (JArr [rec_of [1, 2] 0, rec_of [1] 0])) ml0))"
proof -
  have c: "cycle_ml sample_lib (poll (JArr [rec_of [1, 2] 0, rec_of [1] 0])) ml0 =
      (fst (cycle_ml sample_lib (poll (JArr [rec_of [1, 2] 0, rec_of [1] 0])) ml0),
       Some IndexError)"
    using ragged_cycle [of ml0] by (simp add: prod_eq_iff)
  have "current_cycle ml0 < TRAIN_CYCLES"
    by (simp add: ml0_def TRAIN_CYCLES_def)
  from ml_loop_crashes [OF this c] show ?thesis .
qed

theorem loop_end_witness:
  "ingestion_and_retrain_loop sample_lib
     [poll (JArr [rec_of [1, 2] 0, rec_of [1] 0]),
      \<lparr>delay = 0, reply = ConnFail (RequestException ''timed out'')\<rparr>] main0 =
   Running (outcome_state (ingestion_and_retrain_loop sample_lib
     [poll (JArr [rec_of [1, 2] 0, rec_of [1] 0]),
      \<lparr>delay = 0, reply = ConnFail (RequestException ''timed out'')\<rparr>] main0))
   \<and> cycle_main sample_lib \<lparr>delay = 0, reply = ConnFail (RequestException ''timed out'')\<rparr> main0 =
     main0\<lparr>printed := [''Loop Error: timed out'']\<rparr>
   \<and> snd (cycle_ml sample_lib \<lparr>delay = 0, reply = ConnFail (RequestException ''timed out'')\<rparr>
        ml0) = None
   \<and> ingestion_loop sample_lib
       [poll (JArr [rec_of [1, 2] 0, rec_of [1] 0]), poll (JArr [rec_of [1, 2] 0])] ml0 =
     Crashed IndexError
       (fst (cycle_ml sample_lib (poll (JArr [rec_of [1, 2] 0, rec_of [1] 0])) ml0))
   \<and> TRAIN_CYCLES \<le> current_cycle (final_save (ml0\<lparr>current_cycle := 50\<rparr>))"
proof -
  let ?fail = "\<lparr>delay = 0, reply = ConnFail (RequestException ''timed out'')\<rparr>"
  let ?ragged = "poll (JArr [rec_of [1, 2] 0, rec_of [1] 0])"
  have h1: "try_body_main sample_lib ?fail main0 = (main0, Some (RequestException ''timed out''))"
    by (simp add: try_body_main_def)
  have h2: "fetch_try ?fail ml0 = (ml0, Inl (RequestException ''timed out''))"
    by (simp add: fetch_try_def)
  have h3: "current_cycle ml0 < TRAIN_CYCLES
      \<and> cycle_ml sample_lib ?ragged ml0 = (fst (cycle_ml sample_lib ?ragged ml0), Some IndexError)"
    using ragged_cycle [of ml0] by (simp add: prod_eq_iff ml0_def TRAIN_CYCLES_def)
  have h4: "ingestion_loop sample_lib [] (ml0\<lparr>current_cycle := 50\<rparr>) =
      Halted (final_save (ml0\<lparr>current_cycle := 50\<rparr>))"
    by (simp add: TRAIN_CYCLES_def)
  note a = loop_end [of sample_lib "[?ragged, ?fail]" main0 ?fail main0
      "RequestException ''timed out''" ml0 ml0 "RequestException ''timed out''"
      "fst (cycle_ml sample_lib ?ragged ml0)" IndexError "final_save (ml0\<lparr>current_cycle := 50\<rparr>)"]
  note b = loop_end [of sample_lib "[poll (JArr [rec_of [1, 2] 0])]" main0 ?ragged main0
      "RequestException ''timed out''" ml0 ml0 "RequestException ''timed out''"
      "fst (cycle_ml sample_lib ?ragged ml0)" IndexError "final_save (ml0\<lparr>current_cycle := 50\<rparr>)"]
  note c = loop_end [of sample_lib "[]" main0 ?fail main0
      "RequestException ''timed out''" "ml0\<lparr>current_cycle := 50\<rparr>" ml0
      "RequestException ''timed out''"
      "fst (cycle_ml sample_lib ?ragged ml0)" IndexError "final_save (ml0\<lparr>current_cycle := 50\<rparr>)"]
  from a have "ingestion_and_retrain_loop sample_lib [?ragged, ?fail] main0 =
      Running (outcome_state (ingestion_and_retrain_loop sample_lib [?ragged, ?fail] main0))"
    by auto
  moreover from a h1 have "cycle_main sample_lib ?fail main0 =
      main0\<lparr>printed := [''Loop Error: timed out'']\<rparr>"
    by (simp add: sample_lib_def sample_str_exn_def main0_def)
  moreover from a h2 have "snd (cycle_ml sample_lib ?fail ml0) = None"
    by simp
  moreover from b h3 have "ingestion_loop sample_lib [?ragged, poll (JArr [rec_of [1, 2] 0])] ml0 =
      Crashed IndexError (fst (cycle_ml sample_lib ?ragged ml0))"
    by blast
  moreover from c h4 have "TRAIN_CYCLES \<le> current_cycle (final_save (ml0\<lparr>current_cycle := 50\<rparr>))"
    by blast
  ultimately show ?thesis by blast
qed

subsection \<open>The drift detector\<close>

























end
